theory Spec2Isabelle
  imports Complex_Main
begin

section \<open>HttpServerJob (arangod/HttpServer/HttpServerJob.cpp)\<close>

text \<open>
  Pointers to collaborators are modelled as optional identifiers: \<open>None\<close> is
  \<open>nullptr\<close>. The calls a job makes on its collaborators (the AsyncJobManager, the
  CommTask, the DispatcherQueue, the WorkMonitor, the handler) are recorded, in order,
  as a list of events.
\<close>

type_synonym HttpServer = nat
type_synonym HttpHandler = nat
type_synonym HttpCommTask = nat

datatype error =
    AssertionFailed
  | NullDereference
  | DanglingPointer
  | InvalidPointer
  | Exception string

datatype event =
    FinishAsyncJob
  | SetHandler HttpCommTask "HttpHandler option"
  | Signal HttpCommTask
  | RemoveJob
  | DeleteJob
  | ReleaseHandler HttpHandler
  | PushHandler HttpHandler
  | PopHandler HttpHandler
  | Transfer HttpHandler
  | SetRequestStart HttpHandler
  | PrepareExecute HttpHandler
  | Execute HttpHandler
  | FinalizeExecute HttpHandler
  | SetRequestEnd HttpHandler

record HttpServerJob =
  server :: "HttpServer option"
  handler :: "HttpHandler option"
  task :: "HttpCommTask option"
  refCount :: int
  isInCleanup :: bool
  isDetachedFlag :: bool

text \<open>The constructor: member initialisers, then the two assertions.\<close>

definition HttpServerJob_new ::
  "HttpServer option \<Rightarrow> HttpHandler option \<Rightarrow> HttpCommTask option \<Rightarrow> error + HttpServerJob" where
  "HttpServerJob_new s h t =
     (let j = \<lparr> server = s, handler = h, task = t,
                 refCount = (if t = None then 1 else 2),
                 isInCleanup = False,
                 isDetachedFlag = (t = None) \<rparr>
      in if server j = None then Inl AssertionFailed
         else if handler j = None then Inl AssertionFailed
         else Inr j)"

text \<open>The destructor releases the handler the job still holds.\<close>

definition HttpServerJob_destroy :: "HttpServerJob \<Rightarrow> event list" where
  "HttpServerJob_destroy j =
     (case handler j of Some h \<Rightarrow> [ReleaseHandler h] | None \<Rightarrow> [])"

definition isDetached :: "HttpServerJob \<Rightarrow> bool" where
  "isDetached j = isDetachedFlag j"

text \<open>
  \<open>--_refCount == 0\<close> followed by \<open>delete this\<close>: the job after the call is
  \<open>None\<close> when it was deleted.
\<close>

definition release_ref :: "HttpServerJob \<Rightarrow> HttpServerJob option \<times> event list" where
  "release_ref j =
     (let j' = j\<lparr>refCount := refCount j - 1\<rparr>
      in if refCount j' = 0 then (None, DeleteJob # HttpServerJob_destroy j')
         else (Some j', []))"

subsection \<open>cleanup and beginShutdown, step by step\<close>

text \<open>
  \<open>cleanup\<close> runs on a dispatcher thread and \<open>beginShutdown\<close> on the thread that
  closes the connection. Each read or write of a member of the job is one step of the
  thread that makes it, and a schedule says which thread moves next. No lock covers
  either method. A step of a thread that has finished, or after a fault, changes nothing.
\<close>

datatype cleanup_pc =
    CTestDetached | CStoreTrue | CTestTask | CSetHandler | CClearHandler | CSignal
  | CStoreFalse | CFinishAsync | CRemoveJob | CRelease | CDone

datatype shutdown_pc = SLoadFlag | SNullTask | SRelease | SDone

datatype actor = Cleanup | Shutdown

record job_threads =
  job :: HttpServerJob
  deleted :: bool
  cpc :: cleanup_pc
  spc :: shutdown_pc
  trace :: "event list"
  fault :: "error option"

definition threads_init :: "HttpServerJob \<Rightarrow> job_threads" where
  "threads_init j =
     \<lparr> job = j, deleted = False, cpc = CTestDetached, spc = SLoadFlag, trace = [],
       fault = None \<rparr>"

definition release_step :: "job_threads \<Rightarrow> job_threads" where
  "release_step s =
     (let j' = (job s)\<lparr>refCount := refCount (job s) - 1\<rparr>
      in if refCount j' = 0
         then s\<lparr>job := j', deleted := True,
                trace := trace s @ DeleteJob # HttpServerJob_destroy j'\<rparr>
         else s\<lparr>job := j'\<rparr>)"

definition cleanup_step :: "job_threads \<Rightarrow> job_threads" where
  "cleanup_step s =
     (case cpc s of
        CTestDetached \<Rightarrow>
          if isDetached (job s) then s\<lparr>cpc := CFinishAsync\<rparr> else s\<lparr>cpc := CStoreTrue\<rparr>
      | CFinishAsync \<Rightarrow> s\<lparr>trace := trace s @ [FinishAsyncJob], cpc := CRemoveJob\<rparr>
      | CStoreTrue \<Rightarrow> s\<lparr>job := (job s)\<lparr>isInCleanup := True\<rparr>, cpc := CTestTask\<rparr>
      | CTestTask \<Rightarrow>
          if task (job s) \<noteq> None then s\<lparr>cpc := CSetHandler\<rparr> else s\<lparr>cpc := CStoreFalse\<rparr>
      | CSetHandler \<Rightarrow>
          (case task (job s) of
             None \<Rightarrow> s\<lparr>fault := Some NullDereference\<rparr>
           | Some t \<Rightarrow>
               s\<lparr>trace := trace s @ [SetHandler t (handler (job s))], cpc := CClearHandler\<rparr>)
      | CClearHandler \<Rightarrow> s\<lparr>job := (job s)\<lparr>handler := None\<rparr>, cpc := CSignal\<rparr>
      | CSignal \<Rightarrow>
          (case task (job s) of
             None \<Rightarrow> s\<lparr>fault := Some NullDereference\<rparr>
           | Some t \<Rightarrow> s\<lparr>trace := trace s @ [Signal t], cpc := CStoreFalse\<rparr>)
      | CStoreFalse \<Rightarrow> s\<lparr>job := (job s)\<lparr>isInCleanup := False\<rparr>, cpc := CRemoveJob\<rparr>
      | CRemoveJob \<Rightarrow> s\<lparr>trace := trace s @ [RemoveJob], cpc := CRelease\<rparr>
      | CRelease \<Rightarrow> (release_step s)\<lparr>cpc := CDone\<rparr>
      | CDone \<Rightarrow> s)"

definition shutdown_step :: "job_threads \<Rightarrow> job_threads" where
  "shutdown_step s =
     (case spc s of
        SLoadFlag \<Rightarrow> if isInCleanup (job s) then s else s\<lparr>spc := SNullTask\<rparr>
      | SNullTask \<Rightarrow> s\<lparr>job := (job s)\<lparr>task := None\<rparr>, spc := SRelease\<rparr>
      | SRelease \<Rightarrow> (release_step s)\<lparr>spc := SDone\<rparr>
      | SDone \<Rightarrow> s)"

definition thread_step :: "actor \<Rightarrow> job_threads \<Rightarrow> job_threads" where
  "thread_step a s =
     (if fault s \<noteq> None then s
      else case a of Cleanup \<Rightarrow> cleanup_step s | Shutdown \<Rightarrow> shutdown_step s)"

fun run_schedule :: "actor list \<Rightarrow> job_threads \<Rightarrow> job_threads" where
  "run_schedule [] s = s"
| "run_schedule (a # as) s = run_schedule as (thread_step a s)"

subsection \<open>One call at a time\<close>

text \<open>
  \<open>cleanup\<close> as one call sees it when no other thread writes to the job while it
  runs: the dispatcher thread takes all its steps in a row. The result is the job
  after the call (\<open>None\<close> when the call deleted it) and the calls made, in order.
  What the same steps do when \<open>beginShutdown\<close> runs between them is given by
  \<open>run_schedule\<close> with a mixed schedule.
\<close>

definition cleanup :: "HttpServerJob \<Rightarrow> HttpServerJob option \<times> event list" where
  "cleanup j =
     (let s = run_schedule
                [Cleanup, Cleanup, Cleanup, Cleanup, Cleanup, Cleanup, Cleanup, Cleanup, Cleanup]
                (threads_init j)
      in (if deleted s then None else Some (job s), trace s))"

text \<open>
  \<open>beginShutdown\<close> with no other thread writing to the job while it runs. While the
  cleanup flag is set it sleeps and looks again, so with nobody to clear the flag it
  never returns (\<open>None\<close>).
\<close>

definition beginShutdown :: "HttpServerJob \<Rightarrow> (HttpServerJob option \<times> event list) option" where
  "beginShutdown j =
     (let s = run_schedule [Shutdown, Shutdown, Shutdown] (threads_init j)
      in if spc s = SDone then Some (if deleted s then None else Some (job s), trace s)
         else None)"

text \<open>
  \<open>work\<close>. The handler's behaviour is an input: whether \<open>prepareExecute\<close> throws and
  what \<open>execute\<close> does (throws, or returns a handler status). \<open>Job::JOB_DONE\<close> and
  \<open>HttpHandler::status_t::jobStatus\<close> are declared outside this file and are
  parameters. The \<open>HandlerWorkStack\<close> local pushes the handler on entry and pops it
  on every exit.
\<close>

definition work ::
  "'js \<Rightarrow> ('hs \<Rightarrow> 'js) \<Rightarrow> string option \<Rightarrow> string + 'hs \<Rightarrow> HttpServerJob
     \<Rightarrow> event list \<times> (error + 'js)" where
  "work JOB_DONE jobStatus prepare execute j =
     (case handler j of
        None \<Rightarrow> ([], Inl AssertionFailed)
      | Some h \<Rightarrow>
          if \<not> isDetached j \<and> task j = None
          then ([PushHandler h, Transfer h, PopHandler h], Inr JOB_DONE)
          else
            (case prepare of
               Some e \<Rightarrow>
                 ([PushHandler h, Transfer h, SetRequestStart h, PrepareExecute h,
                   PopHandler h], Inl (Exception e))
             | None \<Rightarrow>
                 (case execute of
                    Inl e \<Rightarrow>
                      ([PushHandler h, Transfer h, SetRequestStart h, PrepareExecute h,
                        Execute h, FinalizeExecute h, PopHandler h], Inl (Exception e))
                  | Inr status \<Rightarrow>
                      ([PushHandler h, Transfer h, SetRequestStart h, PrepareExecute h,
                        Execute h, FinalizeExecute h, SetRequestEnd h, PopHandler h],
                       Inr (jobStatus status)))))"

text \<open>The operations that act on a job, for statements about all of them.\<close>

datatype job_op = OpCleanup | OpBeginShutdown

definition apply_job_op :: "job_op \<Rightarrow> HttpServerJob \<Rightarrow> HttpServerJob option" where
  "apply_job_op op j =
     (case op of
        OpCleanup \<Rightarrow> fst (cleanup j)
      | OpBeginShutdown \<Rightarrow> (case beginShutdown j of None \<Rightarrow> None | Some r \<Rightarrow> fst r))"

fun apply_job_ops :: "job_op list \<Rightarrow> HttpServerJob \<Rightarrow> HttpServerJob option" where
  "apply_job_ops [] j = Some j"
| "apply_job_ops (op # ops) j =
     (case apply_job_op op j of None \<Rightarrow> None | Some j' \<Rightarrow> apply_job_ops ops j')"

section \<open>SchedulerThread (Scheduler/SchedulerThread.cpp)\<close>

type_synonym Task = nat
type_synonym Scheduler = nat

datatype work_e = INVALID | CLEANUP | SETUP | DESTROY

record Work =
  w_work :: work_e
  w_scheduler :: "Scheduler option"
  w_task :: "Task option"

datatype sched_event =
    SetupTask "Task option" "Scheduler option"
  | CleanupTask "Task option"
  | DeleteTask "Task option"
  | WakeupLoop
  | LockQueue
  | PushBack Work
  | UnlockQueue
  | EventLoop
  | LogWarning string
  | LogError string

text \<open>
  The width of the \<open>_numberTasks\<close> counter is declared in the header, outside the
  sources at hand; it is modelled as an integer.
\<close>

record SchedulerThread =
  stopping :: bool
  stopped :: bool
  is_open :: bool
  hasWork :: bool
  queue :: "Work list"
  numberTasks :: int
  sched_events :: "sched_event list"

definition SchedulerThread_new :: SchedulerThread where
  "SchedulerThread_new =
     \<lparr> stopping = False, stopped = False, is_open = False, hasWork = False, queue = [],
       numberTasks = 0, sched_events = [] \<rparr>"

definition emit :: "sched_event list \<Rightarrow> SchedulerThread \<Rightarrow> SchedulerThread" where
  "emit evs st = st\<lparr>sched_events := sched_events st @ evs\<rparr>"

text \<open>
  \<open>registerTask\<close>. Whether the caller is the loop's own thread
  (\<open>threadId() == currentThreadId()\<close>) and whether \<open>setupTask\<close> succeeds are inputs.
\<close>

definition registerTask ::
  "bool \<Rightarrow> bool \<Rightarrow> Scheduler option \<Rightarrow> Task option \<Rightarrow> SchedulerThread
     \<Rightarrow> error + (bool \<times> SchedulerThread)" where
  "registerTask same_thread setup_ok sched tk st =
     (if stopped st then Inr (False, st)
      else if sched = None then Inl AssertionFailed
      else if tk = None then Inl AssertionFailed
      else if same_thread then
        (let st1 = emit [SetupTask tk sched] st
         in if setup_ok then Inr (True, st1\<lparr>numberTasks := numberTasks st1 + 1\<rparr>)
            else Inr (False,
                   emit [LogWarning ''In SchedulerThread::registerTask setupTask has failed'',
                         CleanupTask tk, DeleteTask tk] st1))
      else
        (let w = \<lparr> w_work = SETUP, w_scheduler = sched, w_task = tk \<rparr>;
             st1 = emit [LockQueue, PushBack w] st;
             st2 = st1\<lparr>queue := queue st1 @ [w]\<rparr>;
             st3 = st2\<lparr>hasWork := True\<rparr>
         in Inr (True, emit [WakeupLoop, UnlockQueue] st3)))"

text \<open>One work item taken from the command queue inside the loop.\<close>

definition process_work :: "(Task option \<Rightarrow> bool) \<Rightarrow> Work \<Rightarrow> SchedulerThread \<Rightarrow> SchedulerThread" where
  "process_work setup_ok w st =
     (case w_work w of
        CLEANUP \<Rightarrow>
          (let st1 = emit [CleanupTask (w_task w)] st
           in st1\<lparr>numberTasks := numberTasks st1 - 1\<rparr>)
      | SETUP \<Rightarrow>
          (let st1 = emit [SetupTask (w_task w) (w_scheduler w)] st
           in if setup_ok (w_task w) then st1\<lparr>numberTasks := numberTasks st1 + 1\<rparr>
              else emit [CleanupTask (w_task w), DeleteTask (w_task w)] st1)
      | DESTROY \<Rightarrow>
          (let st1 = emit [CleanupTask (w_task w), DeleteTask (w_task w)] st
           in st1\<lparr>numberTasks := numberTasks st1 - 1\<rparr>)
      | INVALID \<Rightarrow> emit [LogError ''logic error. got invalid Work item''] st)"

text \<open>
  The inner \<open>while (true)\<close> of \<open>run\<close>: take the front item under the lock and
  process it, until the queue is empty or the has-work flag is clear.
\<close>

fun process_all :: "(Task option \<Rightarrow> bool) \<Rightarrow> Work list \<Rightarrow> SchedulerThread \<Rightarrow> SchedulerThread" where
  "process_all setup_ok [] st = st"
| "process_all setup_ok (w # ws) st =
     process_all setup_ok ws (process_work setup_ok w (st\<lparr>queue := ws\<rparr>))"

definition drain_queue :: "(Task option \<Rightarrow> bool) \<Rightarrow> SchedulerThread \<Rightarrow> SchedulerThread" where
  "drain_queue setup_ok st =
     (if \<not> hasWork st then st else process_all setup_ok (queue st) st)"

text \<open>
  The main loop of \<open>run\<close>. The loop blocks in \<open>eventLoop\<close> for an unbounded time
  and may never leave; what happens during one pass is an input: the work other
  threads enqueue while the loop polls, whether the poll throws, and whether another
  thread calls \<open>beginShutdown\<close> (setting the stopping flag) during the poll or
  between the poll and the next test of the flag. A finite list of passes is run;
  \<open>StillRunning\<close> says the loop would poll again. \<open>TRI_HAVE_POSIX_THREADS\<close> is a
  build-time macro defined outside the sources at hand and is a parameter.
\<close>

record pass =
  enqueued :: "Work list"
  poll_throws :: "string option"
  stop_in_poll :: bool
  stop_after_poll :: bool

datatype run_result =
    Propagated string SchedulerThread
  | LoopLeft SchedulerThread
  | StillRunning SchedulerThread

definition poll :: "pass \<Rightarrow> SchedulerThread \<Rightarrow> SchedulerThread" where
  "poll p st =
     (let st1 = emit [EventLoop] st;
          st2 = (if enqueued p = [] then st1
                 else st1\<lparr>queue := queue st1 @ enqueued p, hasWork := True\<rparr>)
      in st2\<lparr>stopping := stopping st2 \<or> stop_in_poll p\<rparr>)"

definition after_poll :: "(Task option \<Rightarrow> bool) \<Rightarrow> pass \<Rightarrow> SchedulerThread \<Rightarrow> SchedulerThread" where
  "after_poll setup_ok p st =
     (let st1 = drain_queue setup_ok st
      in st1\<lparr>stopping := stopping st1 \<or> stop_after_poll p\<rparr>)"

fun run_loop ::
  "bool \<Rightarrow> (Task option \<Rightarrow> bool) \<Rightarrow> pass list \<Rightarrow> SchedulerThread \<Rightarrow> run_result" where
  "run_loop TRI_HAVE_POSIX_THREADS setup_ok [] st =
     (if stopping st then LoopLeft st else StillRunning st)"
| "run_loop TRI_HAVE_POSIX_THREADS setup_ok (p # ps) st =
     (if stopping st then LoopLeft st
      else
        (let st1 = poll p st
         in case poll_throws p of
              Some e \<Rightarrow>
                if TRI_HAVE_POSIX_THREADS \<and> stopping st1
                then Propagated e
                       (emit [LogWarning ''caught cancelation exception during work''] st1)
                else run_loop TRI_HAVE_POSIX_THREADS setup_ok ps
                       (after_poll setup_ok p
                          (emit [LogWarning ''caught exception from ev_loop''] st1))
            | None \<Rightarrow>
                run_loop TRI_HAVE_POSIX_THREADS setup_ok ps (after_poll setup_ok p st1)))"

definition setup_succeeds :: "Task option \<Rightarrow> bool" where
  "setup_succeeds t = True"

section \<open>WorkMonitor (lib/Basics/WorkMonitor.cpp, WorkMonitorHandler.cpp)\<close>

text \<open>
  A \<open>WorkDescription*\<close> is the index of the description in the list of all
  descriptions ever allocated with \<open>new\<close>; the code never deletes one, it recycles
  them through the two queues. \<open>_data\<close> is a union: a description fresh from
  \<open>new\<close> holds nothing there, and one taken from the queue of empty descriptions
  still holds what its last user wrote.
\<close>

type_synonym Thread = nat
type_synonym desc_ptr = nat

datatype WorkType = THREAD | HANDLER

datatype work_data = NoData | ThreadData Thread | HandlerData HttpHandler

record WorkDescription =
  wd_type :: WorkType
  wd_destroy :: bool
  wd_prev :: "desc_ptr option"
  wd_data :: work_data

record WorkMonitor =
  descriptions :: "WorkDescription list"
  CURRENT_THREAD :: "Thread option"
  workDescriptionOf :: "Thread \<Rightarrow> desc_ptr option"
  THREADS :: "Thread set"
  EMPTY_WORK_DESCRIPTION :: "desc_ptr list"
  FREEABLE_WORK_DESCRIPTION :: "desc_ptr list"
  deleter_calls :: "HttpHandler list"

text \<open>The constructor \<open>WorkDescription (type, prev)\<close>.\<close>

definition WorkDescription_new :: "WorkType \<Rightarrow> desc_ptr option \<Rightarrow> WorkDescription" where
  "WorkDescription_new type p =
     \<lparr> wd_type = type, wd_destroy = True, wd_prev = p, wd_data = NoData \<rparr>"

text \<open>
  Modelled from the spec: \<open>Thread::workDescription\<close>, \<open>Thread::setWorkDescription\<close>
  and \<open>Thread::setPrevWorkDescription\<close> (class \<open>Thread\<close>, Basics/Thread.cpp, is not
  among the sources). The spec has, per thread, a linked stack of WorkDescriptions
  joined by their \<open>_prev\<close> links: the thread holds the top of its stack,
  \<open>workDescription\<close> reads it, \<open>setWorkDescription\<close> replaces it, and
  \<open>setPrevWorkDescription\<close> takes the top off, making its \<open>_prev\<close> the new top, and
  returns the description taken off (null when the stack is empty).
\<close>

definition Thread_workDescription :: "Thread \<Rightarrow> WorkMonitor \<Rightarrow> desc_ptr option" where
  "Thread_workDescription th m = workDescriptionOf m th"

definition Thread_setWorkDescription :: "Thread \<Rightarrow> desc_ptr option \<Rightarrow> WorkMonitor \<Rightarrow> WorkMonitor" where
  "Thread_setWorkDescription th d m = m\<lparr>workDescriptionOf := (workDescriptionOf m)(th := d)\<rparr>"

definition Thread_setPrevWorkDescription ::
  "Thread \<Rightarrow> WorkMonitor \<Rightarrow> error + (desc_ptr option \<times> WorkMonitor)" where
  "Thread_setPrevWorkDescription th m =
     (case workDescriptionOf m th of
        None \<Rightarrow> Inr (None, m)
      | Some d \<Rightarrow>
          if d < length (descriptions m)
          then Inr (Some d,
                 m\<lparr>workDescriptionOf := (workDescriptionOf m)(th := wd_prev (descriptions m ! d))\<rparr>)
          else Inl DanglingPointer)"

definition createWorkDescription :: "WorkType \<Rightarrow> WorkMonitor \<Rightarrow> error + (desc_ptr \<times> WorkMonitor)" where
  "createWorkDescription type m =
     (case EMPTY_WORK_DESCRIPTION m of
        d # rest \<Rightarrow>
          (case CURRENT_THREAD m of
             None \<Rightarrow> Inl NullDereference
           | Some th \<Rightarrow>
               if d < length (descriptions m)
               then Inr (d,
                      m\<lparr>EMPTY_WORK_DESCRIPTION := rest,
                        descriptions := (descriptions m)
                          [d := (descriptions m ! d)
                             \<lparr>wd_type := type,
                              wd_prev := Thread_workDescription th m,
                              wd_destroy := True\<rparr>]\<rparr>)
               else Inl DanglingPointer)
      | [] \<Rightarrow>
          (case CURRENT_THREAD m of
             None \<Rightarrow> Inl NullDereference
           | Some th \<Rightarrow>
               Inr (length (descriptions m),
                 m\<lparr>descriptions := descriptions m @
                      [WorkDescription_new type (Thread_workDescription th m)]\<rparr>)))"

definition activateWorkDescription :: "desc_ptr \<Rightarrow> WorkMonitor \<Rightarrow> error + WorkMonitor" where
  "activateWorkDescription d m =
     (case CURRENT_THREAD m of
        None \<Rightarrow> Inl NullDereference
      | Some th \<Rightarrow> Inr (Thread_setWorkDescription th (Some d) m))"

definition deactivateWorkDescription :: "WorkMonitor \<Rightarrow> error + (desc_ptr option \<times> WorkMonitor)" where
  "deactivateWorkDescription m =
     (case CURRENT_THREAD m of
        None \<Rightarrow> Inl NullDereference
      | Some th \<Rightarrow> Thread_setPrevWorkDescription th m)"

definition freeWorkDescription :: "desc_ptr \<Rightarrow> WorkMonitor \<Rightarrow> WorkMonitor" where
  "freeWorkDescription d m =
     m\<lparr>FREEABLE_WORK_DESCRIPTION := FREEABLE_WORK_DESCRIPTION m @ [d]\<rparr>"

text \<open>Writing a member of the description \<open>d\<close> points to.\<close>

definition set_data :: "desc_ptr \<Rightarrow> work_data \<Rightarrow> WorkMonitor \<Rightarrow> error + WorkMonitor" where
  "set_data d x m =
     (if d < length (descriptions m)
      then Inr (m\<lparr>descriptions := (descriptions m)[d := (descriptions m ! d)\<lparr>wd_data := x\<rparr>]\<rparr>)
      else Inl DanglingPointer)"

definition set_destroy :: "desc_ptr \<Rightarrow> bool \<Rightarrow> WorkMonitor \<Rightarrow> error + WorkMonitor" where
  "set_destroy d b m =
     (if d < length (descriptions m)
      then Inr (m\<lparr>descriptions := (descriptions m)[d := (descriptions m ! d)\<lparr>wd_destroy := b\<rparr>]\<rparr>)
      else Inl DanglingPointer)"

definition pushHandler :: "HttpHandler \<Rightarrow> WorkMonitor \<Rightarrow> error + WorkMonitor" where
  "pushHandler h m =
     (case createWorkDescription HANDLER m of
        Inl e \<Rightarrow> Inl e
      | Inr (d, m1) \<Rightarrow>
          (case set_data d (HandlerData h) m1 of
             Inl e \<Rightarrow> Inl e
           | Inr m2 \<Rightarrow> activateWorkDescription d m2))"

text \<open>
  The two assertions shared by \<open>popHandler\<close> and \<open>destroyHandler\<close>: the description
  taken off is not null, and its \<open>_data.handler\<close> is the handler given.
\<close>

definition deactivate_checked :: "HttpHandler \<Rightarrow> WorkMonitor \<Rightarrow> error + (desc_ptr \<times> WorkMonitor)" where
  "deactivate_checked h m =
     (case deactivateWorkDescription m of
        Inl e \<Rightarrow> Inl e
      | Inr (None, m1) \<Rightarrow> Inl AssertionFailed
      | Inr (Some d, m1) \<Rightarrow>
          if d < length (descriptions m1)
          then (if wd_data (descriptions m1 ! d) = HandlerData h then Inr (d, m1)
                else Inl AssertionFailed)
          else Inl DanglingPointer)"

definition popHandler :: "HttpHandler \<Rightarrow> WorkMonitor \<Rightarrow> error + WorkMonitor" where
  "popHandler h m =
     (case deactivate_checked h m of
        Inl e \<Rightarrow> Inl e
      | Inr (d, m1) \<Rightarrow>
          (case set_destroy d False m1 of
             Inl e \<Rightarrow> Inl e
           | Inr m2 \<Rightarrow> Inr (freeWorkDescription d m2)))"







definition pushThread :: "Thread \<Rightarrow> WorkMonitor \<Rightarrow> error + WorkMonitor" where
  "pushThread t m =
     (case createWorkDescription THREAD (m\<lparr>CURRENT_THREAD := Some t\<rparr>) of
        Inl e \<Rightarrow> Inl e
      | Inr (d, m1) \<Rightarrow>
          (case set_data d (ThreadData t) m1 of
             Inl e \<Rightarrow> Inl e
           | Inr m2 \<Rightarrow>
               (case activateWorkDescription d m2 of
                  Inl e \<Rightarrow> Inl e
                | Inr m3 \<Rightarrow> Inr (m3\<lparr>THREADS := insert t (THREADS m3)\<rparr>))))"

definition popThread :: "Thread \<Rightarrow> WorkMonitor \<Rightarrow> error + WorkMonitor" where
  "popThread t m =
     (case deactivateWorkDescription m of
        Inl e \<Rightarrow> Inl e
      | Inr (None, m1) \<Rightarrow> Inl NullDereference
      | Inr (Some d, m1) \<Rightarrow>
          if d < length (descriptions m1)
          then (if wd_type (descriptions m1 ! d) \<noteq> THREAD then Inl AssertionFailed
                else if wd_data (descriptions m1 ! d) \<noteq> ThreadData t then Inl AssertionFailed
                else Inr ((freeWorkDescription d m1)\<lparr>THREADS := THREADS m1 - {t}\<rparr>))
          else Inl DanglingPointer)"

text \<open>
  The monitor before any thread has registered, and the monitor after thread 1 has
  registered with \<open>pushThread\<close>: its thread description is on top of its stack.
\<close>

definition monitor_empty :: WorkMonitor where
  "monitor_empty =
     \<lparr> descriptions = [], CURRENT_THREAD = None, workDescriptionOf = (\<lambda>t. None),
       THREADS = {}, EMPTY_WORK_DESCRIPTION = [], FREEABLE_WORK_DESCRIPTION = [],
       deleter_calls = [] \<rparr>"

definition monitor0 :: WorkMonitor where
  "monitor0 =
     \<lparr> descriptions =
         [\<lparr> wd_type = THREAD, wd_destroy = True, wd_prev = None, wd_data = ThreadData 1 \<rparr>],
       CURRENT_THREAD = Some 1, workDescriptionOf = (\<lambda>t. None)(1 := Some 0),
       THREADS = {1}, EMPTY_WORK_DESCRIPTION = [], FREEABLE_WORK_DESCRIPTION = [],
       deleter_calls = [] \<rparr>"

text \<open>
  Scopes of \<open>HandlerWorkStack (handler, false)\<close> nested in one another on one
  thread: each pushes its handler on entry and pops it on exit.
\<close>

fun nested_handlers :: "HttpHandler list \<Rightarrow> WorkMonitor \<Rightarrow> error + WorkMonitor" where
  "nested_handlers [] m = Inr m"
| "nested_handlers (h # hs) m =
     (case pushHandler h m of
        Inl e \<Rightarrow> Inl e
      | Inr m1 \<Rightarrow>
          (case nested_handlers hs m1 of
             Inl e \<Rightarrow> Inl e
           | Inr m2 \<Rightarrow> popHandler h m2))"

text \<open>
  The queue of empty descriptions holds allocated descriptions, each once.
\<close>

definition empty_queue_ok :: "WorkMonitor \<Rightarrow> bool" where
  "empty_queue_ok m =
     (distinct (EMPTY_WORK_DESCRIPTION m) \<and>
      list_all (\<lambda>d. d < length (descriptions m)) (EMPTY_WORK_DESCRIPTION m))"

section \<open>RestDebugHelperHandler (arangod/RestHandler/RestDebugHelperHandler.cpp)\<close>

text \<open>
  The request is what \<open>HttpRequest::value (key, found)\<close> answers: the value string and
  the found flag for each key. \<open>StringUtils::doubleDecimal\<close>,
  \<open>StringUtils::boolean\<close> and \<open>TRI_VERSION\<close> are declared outside the sources at hand
  and are parameters.
\<close>

datatype VPack =
    VString string
  | VDouble real
  | VBool bool
  | VObject "(string \<times> VPack) list"

record HttpRequest =
  req_value :: "string \<Rightarrow> string \<times> bool"

record HttpResponse =
  code :: nat
  body :: VPack

datatype debug_event = Block | Usleep int | Unblock

text \<open>
  A \<open>double\<close> is the real number it stands for, and every multiplication, division
  and conversion to \<open>double\<close> rounds its exact result to the nearest double, ties to
  even: \<open>to_double\<close>, with 53 significant bits. The exponent is not bounded: a
  product of \<open>execute\<close> too small for a normal double converts to 0 and one too
  large is beyond \<open>unsigned long\<close>, bounded or not.
\<close>

function binary_length :: "int \<Rightarrow> nat" where
  "binary_length n = (if n \<le> 0 then 0 else Suc (binary_length (n div 2)))"
  by pat_completeness auto
termination
  by (relation "measure nat") auto

declare binary_length.simps [simp del]

text \<open>For \<open>0 < x\<close>, the \<open>e\<close> with \<open>2 ^ e \<le> x < 2 ^ (e + 1)\<close>.\<close>

definition exponent2 :: "real \<Rightarrow> int" where
  "exponent2 x =
     (if 1 \<le> x then int (binary_length \<lfloor>x\<rfloor>) - 1
      else - int (binary_length (\<lceil>1 / x\<rceil> - 1)))"

definition pow2 :: "int \<Rightarrow> real" where
  "pow2 e = (if 0 \<le> e then 2 ^ nat e else 1 / 2 ^ nat (- e))"

definition round_even :: "real \<Rightarrow> int" where
  "round_even r =
     (let f = \<lfloor>r\<rfloor>
      in if r - of_int f < 1 / 2 then f
         else if 1 / 2 < r - of_int f then f + 1
         else if even f then f else f + 1)"

definition to_double :: "real \<Rightarrow> real" where
  "to_double x =
     (if x = 0 then 0
      else
        (let a = \<bar>x\<bar>;
             u = pow2 (exponent2 a - 52);
             r = of_int (round_even (a / u)) * u
         in if 0 < x then r else - r))"

text \<open>
  \<open>static_cast<unsigned long>\<close> of a double drops the fraction; the result is
  undefined (\<open>None\<close>) when it does not fit. \<open>unsigned long\<close> is taken as 64 bits.
\<close>

definition to_unsigned_long :: "real \<Rightarrow> int option" where
  "to_unsigned_long x =
     (if - 1 < x \<and> x < 2 ^ 64 then Some (if x < 0 then 0 else \<lfloor>x\<rfloor>) else None)"

text \<open>
  \<open>usleep\<close> takes a \<open>useconds_t\<close>, an unsigned type of 32 bits in the C library:
  the \<open>unsigned long\<close> passed to it is reduced modulo \<open>2 ^ 32\<close>.
\<close>

definition to_useconds_t :: "int \<Rightarrow> int" where
  "to_useconds_t s = s mod 2 ^ 32"

text \<open>
  Modelled from the spec: \<open>RestBaseHandler::generateResult\<close> (the base handler is not
  among the sources). The spec's happy path has the debug helper answer 200 with the
  JSON object the handler built; \<open>generateResult\<close> makes the response with status 200
  and the given value as its body.
\<close>

definition generateResult :: "VPack \<Rightarrow> HttpResponse" where
  "generateResult slice = \<lparr> code = 200, body = slice \<rparr>"

text \<open>
  \<open>execute\<close>. Further inputs: whether the handler has a dispatcher thread, and whether
  building or sending the result throws (the \<open>catch (...)\<close> drops the error, and no
  response is made). The builder calls add four attributes, in this order, to one
  object. The result is \<open>None\<close> where the conversion of the sleep time is undefined.
\<close>

definition RestDebugHelperHandler_execute ::
  "(string \<Rightarrow> real) \<Rightarrow> (string \<Rightarrow> bool) \<Rightarrow> string \<Rightarrow> 'hs \<Rightarrow> bool \<Rightarrow> bool \<Rightarrow> HttpRequest
     \<Rightarrow> (debug_event list \<times> HttpResponse option \<times> 'hs) option" where
  "RestDebugHelperHandler_execute doubleDecimal boolean TRI_VERSION HANDLER_DONE
       has_dispatcherThread result_throws request =
     (let sleepStr = fst (req_value request ''sleep'')
      in case to_unsigned_long
                (to_double (to_double (doubleDecimal sleepStr * 1000) * 1000)) of
           None \<Rightarrow> None
         | Some s \<Rightarrow>
             (let (blockStr, found) = req_value request ''block'';
                  block = (found \<and> boolean blockStr);
                  ev1 = (if block \<and> has_dispatcherThread then [Block] else []);
                  ev2 = (if 0 < s then [Usleep (to_useconds_t s)] else []);
                  ev3 = (if block \<and> has_dispatcherThread then [Unblock] else []);
                  response =
                    (if result_throws then None
                     else Some (generateResult
                            (VObject [(''server'', VString ''arango''),
                                      (''version'', VString TRI_VERSION),
                                      (''sleep'',
                                         VDouble (to_double (to_double (of_int s) / 1000000))),
                                      (''block'', VBool block)])))
              in Some (ev1 @ ev2 @ ev3, response, HANDLER_DONE)))"

text \<open>The request \<open>GET /debug?sleep=0\<close>: one parameter, \<open>sleep\<close>, with value \<open>0\<close>.\<close>

definition sleep0_request :: HttpRequest where
  "sleep0_request =
     \<lparr> req_value = (\<lambda>k. if k = ''sleep'' then (''0'', True) else ([], False)) \<rparr>"

text \<open>A decimal parser that knows the one string the example needs.\<close>

definition decimal0 :: "string \<Rightarrow> real" where
  "decimal0 str = (if str = ''0'' then 0 else 1)"

definition boolean_true :: "string \<Rightarrow> bool" where
  "boolean_true str = (str = ''true'')"

section \<open>Properties of HttpServerJob\<close>

subsection \<open>A call run alone, in closed form\<close>

lemma release_ref_cases:
  "release_ref j =
     (if refCount j - 1 = 0
      then (None, DeleteJob # HttpServerJob_destroy (j\<lparr>refCount := refCount j - 1\<rparr>))
      else (Some (j\<lparr>refCount := refCount j - 1\<rparr>), []))"
  by (simp add: release_ref_def Let_def)

lemma cleanup_alone_detached:
  "isDetached j \<Longrightarrow>
     cleanup j = (fst (release_ref j), [FinishAsyncJob, RemoveJob] @ snd (release_ref j))"
  by (simp add: cleanup_def threads_init_def thread_step_def cleanup_step_def
      release_step_def release_ref_cases Let_def)

lemma cleanup_alone_task:
  "\<not> isDetached j \<Longrightarrow> task j = Some t \<Longrightarrow>
     cleanup j =
       (fst (release_ref (j\<lparr>handler := None, isInCleanup := False\<rparr>)),
        [SetHandler t (handler j), Signal t, RemoveJob] @
        snd (release_ref (j\<lparr>handler := None, isInCleanup := False\<rparr>)))"
  by (simp add: cleanup_def threads_init_def thread_step_def cleanup_step_def
      release_step_def release_ref_cases Let_def)

lemma cleanup_alone_no_task:
  "\<not> isDetached j \<Longrightarrow> task j = None \<Longrightarrow>
     cleanup j =
       (fst (release_ref (j\<lparr>isInCleanup := False\<rparr>)),
        [RemoveJob] @ snd (release_ref (j\<lparr>isInCleanup := False\<rparr>)))"
  by (simp add: cleanup_def threads_init_def thread_step_def cleanup_step_def
      release_step_def release_ref_cases Let_def)

lemma beginShutdown_alone:
  "beginShutdown j =
     (if isInCleanup j then None else Some (release_ref (j\<lparr>task := None\<rparr>)))"
  by (simp add: beginShutdown_def threads_init_def thread_step_def shutdown_step_def
      release_step_def release_ref_cases Let_def)

text \<open>A call run alone never goes through a null pointer and always finishes.\<close>

lemma cleanup_alone_no_fault:
  "fault (run_schedule
            [Cleanup, Cleanup, Cleanup, Cleanup, Cleanup, Cleanup, Cleanup, Cleanup, Cleanup]
            (threads_init j)) = None \<and>
   cpc (run_schedule
            [Cleanup, Cleanup, Cleanup, Cleanup, Cleanup, Cleanup, Cleanup, Cleanup, Cleanup]
            (threads_init j)) = CDone"
proof (cases "isDetached j")
  case True
  then show ?thesis
    by (simp add: threads_init_def thread_step_def cleanup_step_def release_step_def Let_def)
next
  case False
  then show ?thesis
    by (cases "task j")
      (simp_all add: threads_init_def thread_step_def cleanup_step_def release_step_def Let_def)
qed

subsection \<open>The detached flag\<close>

lemma release_ref_detached_flag:
  "release_ref j = (Some j', ev) \<Longrightarrow> isDetachedFlag j' = isDetachedFlag j"
  by (auto simp: release_ref_def Let_def split: if_splits)

lemma cleanup_detached_flag:
  assumes "cleanup j = (Some j', ev)"
  shows "isDetachedFlag j' = isDetachedFlag j"
proof (cases "isDetached j")
  case True
  with assms show ?thesis
    by (auto simp: cleanup_alone_detached release_ref_cases split: if_splits)
next
  case False
  with assms show ?thesis
    by (cases "task j")
      (auto simp: cleanup_alone_task cleanup_alone_no_task release_ref_cases split: if_splits)
qed

lemma beginShutdown_detached_flag:
  "beginShutdown j = Some (Some j', ev) \<Longrightarrow> isDetachedFlag j' = isDetachedFlag j"
  by (auto simp: beginShutdown_alone split: if_splits dest!: release_ref_detached_flag)

lemma apply_job_op_detached_flag:
  "apply_job_op op j = Some j' \<Longrightarrow> isDetachedFlag j' = isDetachedFlag j"
proof (cases op)
  case OpCleanup
  assume "apply_job_op op j = Some j'"
  with OpCleanup have "cleanup j = (Some j', snd (cleanup j))"
    by (simp add: apply_job_op_def prod_eq_iff)
  then show ?thesis by (rule cleanup_detached_flag)
next
  case OpBeginShutdown
  assume "apply_job_op op j = Some j'"
  with OpBeginShutdown obtain r where "beginShutdown j = Some r" "fst r = Some j'"
    by (auto simp: apply_job_op_def split: option.splits)
  then have "beginShutdown j = Some (Some j', snd r)"
    by (simp add: prod_eq_iff)
  then show ?thesis by (rule beginShutdown_detached_flag)
qed

lemma apply_job_ops_detached_flag:
  "apply_job_ops ops j = Some j' \<Longrightarrow> isDetachedFlag j' = isDetachedFlag j"
proof (induction ops arbitrary: j)
  case Nil
  then show ?case by simp
next
  case (Cons op ops)
  then obtain j1 where s: "apply_job_op op j = Some j1" and r: "apply_job_ops ops j1 = Some j'"
    by (auto split: option.splits)
  from Cons.IH [OF r] apply_job_op_detached_flag [OF s] show ?case by simp
qed

text \<open>
  C4: the detached flag and the initial reference count are fixed by the constructor's
  task argument (detached and count 1 exactly for a null task, otherwise not detached
  and count 2), and no sequence of \<open>cleanup\<close> and \<open>beginShutdown\<close> calls that
  leaves the job alive changes what \<open>isDetached\<close> returns (\<open>work\<close> and the other
  methods take the job and return no new one: they do not write to it).
\<close>

theorem C4_detached_fixed_at_construction:
  "HttpServerJob_new s h t = Inr j \<Longrightarrow>
     isDetached j = (t = None) \<and>
     refCount j = (if t = None then 1 else 2) \<and>
     (\<forall>ops j'. apply_job_ops ops j = Some j' \<longrightarrow> isDetached j' = (t = None))"
proof -
  assume a: "HttpServerJob_new s h t = Inr j"
  then have j: "isDetachedFlag j = (t = None)" "refCount j = (if t = None then 1 else 2)"
    by (auto simp: HttpServerJob_new_def Let_def split: if_splits)
  show ?thesis
    using j by (simp add: isDetached_def apply_job_ops_detached_flag)
qed

theorem C4_detached_fixed_at_construction_witness:
  "HttpServerJob_new (Some 1) (Some 7) (Some 3) =
     Inr \<lparr> server = Some 1, handler = Some 7, task = Some 3, refCount = 2,
           isInCleanup = False, isDetachedFlag = False \<rparr> \<and>
   apply_job_ops [OpCleanup]
     \<lparr> server = Some 1, handler = Some 7, task = Some 3, refCount = 2,
       isInCleanup = False, isDetachedFlag = False \<rparr> =
     Some \<lparr> server = Some 1, handler = None, task = Some 3, refCount = 1,
            isInCleanup = False, isDetachedFlag = False \<rparr> \<and>
   \<not> isDetached \<lparr> server = Some 1, handler = None, task = Some 3, refCount = 1,
                   isInCleanup = False, isDetachedFlag = False \<rparr>"
proof -
  have n: "HttpServerJob_new (Some 1) (Some 7) (Some 3) =
     Inr \<lparr> server = Some 1, handler = Some 7, task = Some 3, refCount = 2,
           isInCleanup = False, isDetachedFlag = False \<rparr>"
    by (simp add: HttpServerJob_new_def)
  have c: "apply_job_ops [OpCleanup]
     \<lparr> server = Some 1, handler = Some 7, task = Some 3, refCount = 2,
       isInCleanup = False, isDetachedFlag = False \<rparr> =
     Some \<lparr> server = Some 1, handler = None, task = Some 3, refCount = 1,
            isInCleanup = False, isDetachedFlag = False \<rparr>"
    by (simp add: apply_job_op_def cleanup_alone_task release_ref_cases isDetached_def)
  from C4_detached_fixed_at_construction [OF n] c n show ?thesis
    by blast
qed

subsection \<open>Reference counting\<close>

lemma cleanup_deleted_iff:
  "fst (cleanup j) = None \<longleftrightarrow> refCount j - 1 = 0"
proof (cases "isDetached j")
  case True
  then show ?thesis by (simp add: cleanup_alone_detached release_ref_cases)
next
  case False
  then show ?thesis
    by (cases "task j")
      (simp_all add: cleanup_alone_task cleanup_alone_no_task release_ref_cases)
qed

lemma cleanup_alive_refCount:
  assumes "fst (cleanup j) = Some j'"
  shows "refCount j' = refCount j - 1"
proof (cases "isDetached j")
  case True
  with assms show ?thesis
    by (auto simp: cleanup_alone_detached release_ref_cases split: if_splits)
next
  case False
  with assms show ?thesis
    by (cases "task j")
      (auto simp: cleanup_alone_task cleanup_alone_no_task release_ref_cases split: if_splits)
qed

lemma beginShutdown_deleted_iff:
  "beginShutdown j = Some r \<Longrightarrow> fst r = None \<longleftrightarrow> refCount j - 1 = 0"
  by (auto simp: beginShutdown_alone release_ref_cases split: if_splits)

lemma beginShutdown_alive_refCount:
  "beginShutdown j = Some r \<Longrightarrow> fst r = Some j' \<Longrightarrow> refCount j' = refCount j - 1"
  by (auto simp: beginShutdown_alone release_ref_cases split: if_splits)

lemma new_attached_cleanup_then_shutdown:
  assumes "HttpServerJob_new s h (Some t) = Inr j"
  shows "\<exists>j1. fst (cleanup j) = Some j1 \<and> refCount j1 = 1 \<and>
              (\<exists>ev. beginShutdown j1 = Some (None, ev))"
proof -
  from assms have j: "refCount j = 2" "\<not> isDetached j" "task j = Some t" "\<not> isInCleanup j"
    by (auto simp: HttpServerJob_new_def isDetached_def Let_def split: if_splits)
  then show ?thesis
    by (simp add: cleanup_alone_task release_ref_cases beginShutdown_alone)
qed

lemma new_attached_shutdown_then_cleanup:
  assumes "HttpServerJob_new s h (Some t) = Inr j"
  shows "\<exists>j1 ev. beginShutdown j = Some (Some j1, ev) \<and> refCount j1 = 1 \<and>
              fst (cleanup j1) = None"
proof -
  from assms have j: "refCount j = 2" "\<not> isDetached j" "task j = Some t" "\<not> isInCleanup j"
    by (auto simp: HttpServerJob_new_def isDetached_def Let_def split: if_splits)
  then show ?thesis
    by (simp add: cleanup_alone_no_task release_ref_cases beginShutdown_alone isDetached_def)
qed

lemma new_detached_cleanup:
  assumes "HttpServerJob_new s h None = Inr j"
  shows "fst (cleanup j) = None"
proof -
  from assms have j: "refCount j = 1"
    by (auto simp: HttpServerJob_new_def Let_def split: if_splits)
  then show ?thesis by (simp add: cleanup_deleted_iff)
qed

text \<open>
  C2: \<open>cleanup\<close> and \<open>beginShutdown\<close> each take one off the reference count, and
  the job is deleted by a call exactly when that call brings the count to zero. A job
  built with a task (count 2) survives the first of \<open>cleanup\<close> and
  \<open>beginShutdown\<close> with count 1 and is deleted by the second, in either order; a
  job built without a task (count 1) is deleted by \<open>cleanup\<close>. \<open>beginShutdown\<close>
  returns whenever the cleanup flag is clear.
\<close>

theorem C2_refcount_decides_deletion:
  "(fst (cleanup j) = None \<longleftrightarrow> refCount j - 1 = 0) \<and>
   (\<forall>j'. fst (cleanup j) = Some j' \<longrightarrow> refCount j' = refCount j - 1) \<and>
   (\<not> isInCleanup j \<longrightarrow> (\<exists>r. beginShutdown j = Some r)) \<and>
   (\<forall>r. beginShutdown j = Some r \<longrightarrow>
        (fst r = None \<longleftrightarrow> refCount j - 1 = 0) \<and>
        (\<forall>j'. fst r = Some j' \<longrightarrow> refCount j' = refCount j - 1)) \<and>
   (\<forall>s h t j0. HttpServerJob_new s h (Some t) = Inr j0 \<longrightarrow>
        (\<exists>j1. fst (cleanup j0) = Some j1 \<and> refCount j1 = 1 \<and>
              (\<exists>ev. beginShutdown j1 = Some (None, ev))) \<and>
        (\<exists>j1 ev. beginShutdown j0 = Some (Some j1, ev) \<and> refCount j1 = 1 \<and>
              fst (cleanup j1) = None)) \<and>
   (\<forall>s h j0. HttpServerJob_new s h None = Inr j0 \<longrightarrow> fst (cleanup j0) = None)"
proof -
  have 1: "fst (cleanup j) = None \<longleftrightarrow> refCount j - 1 = 0"
    by (rule cleanup_deleted_iff)
  have 2: "\<forall>j'. fst (cleanup j) = Some j' \<longrightarrow> refCount j' = refCount j - 1"
    by (simp add: cleanup_alive_refCount)
  have 3: "\<not> isInCleanup j \<longrightarrow> (\<exists>r. beginShutdown j = Some r)"
    by (simp add: beginShutdown_alone)
  have 4: "\<forall>r. beginShutdown j = Some r \<longrightarrow>
        (fst r = None \<longleftrightarrow> refCount j - 1 = 0) \<and>
        (\<forall>j'. fst r = Some j' \<longrightarrow> refCount j' = refCount j - 1)"
    using beginShutdown_deleted_iff beginShutdown_alive_refCount by blast
  have 5: "\<forall>s h t j0. HttpServerJob_new s h (Some t) = Inr j0 \<longrightarrow>
        (\<exists>j1. fst (cleanup j0) = Some j1 \<and> refCount j1 = 1 \<and>
              (\<exists>ev. beginShutdown j1 = Some (None, ev))) \<and>
        (\<exists>j1 ev. beginShutdown j0 = Some (Some j1, ev) \<and> refCount j1 = 1 \<and>
              fst (cleanup j1) = None)"
    using new_attached_cleanup_then_shutdown new_attached_shutdown_then_cleanup by blast
  have 6: "\<forall>s h j0. HttpServerJob_new s h None = Inr j0 \<longrightarrow> fst (cleanup j0) = None"
    using new_detached_cleanup by blast
  from 1 2 3 4 5 6 show ?thesis by blast
qed

theorem C2_refcount_decides_deletion_witness:
  "HttpServerJob_new (Some 1) (Some 7) (Some 3) = Inr
      \<lparr> server = Some 1, handler = Some 7, task = Some 3, refCount = 2,
        isInCleanup = False, isDetachedFlag = False \<rparr> \<and>
   HttpServerJob_new (Some 1) (Some 7) None = Inr
      \<lparr> server = Some 1, handler = Some 7, task = None, refCount = 1,
        isInCleanup = False, isDetachedFlag = True \<rparr> \<and>
   \<not> isInCleanup
      \<lparr> server = Some 1, handler = Some 7, task = Some 3, refCount = 2,
        isInCleanup = False, isDetachedFlag = False \<rparr> \<and>
   (\<exists>r. beginShutdown
      \<lparr> server = Some 1, handler = Some 7, task = Some 3, refCount = 2,
        isInCleanup = False, isDetachedFlag = False \<rparr> = Some r \<and> fst r \<noteq> None) \<and>
   (\<exists>j1. fst (cleanup
      \<lparr> server = Some 1, handler = Some 7, task = Some 3, refCount = 2,
        isInCleanup = False, isDetachedFlag = False \<rparr>) = Some j1 \<and> refCount j1 = 1 \<and> (\<exists>ev. beginShutdown j1 = Some (None, ev))) \<and>
   fst (cleanup
      \<lparr> server = Some 1, handler = Some 7, task = None, refCount = 1,
        isInCleanup = False, isDetachedFlag = True \<rparr>) = None"
proof -
  have n: "HttpServerJob_new (Some 1) (Some 7) (Some 3) = Inr
      \<lparr> server = Some 1, handler = Some 7, task = Some 3, refCount = 2,
        isInCleanup = False, isDetachedFlag = False \<rparr>"
    by (simp add: HttpServerJob_new_def)
  have d: "HttpServerJob_new (Some 1) (Some 7) None = Inr
      \<lparr> server = Some 1, handler = Some 7, task = None, refCount = 1,
        isInCleanup = False, isDetachedFlag = True \<rparr>"
    by (simp add: HttpServerJob_new_def)
  have f: "\<not> isInCleanup
      \<lparr> server = Some 1, handler = Some 7, task = Some 3, refCount = 2,
        isInCleanup = False, isDetachedFlag = False \<rparr>"
    by simp
  note T = C2_refcount_decides_deletion [of
      "\<lparr> server = Some 1, handler = Some 7, task = Some 3, refCount = 2,
        isInCleanup = False, isDetachedFlag = False \<rparr>"]
  from T f obtain r where r: "beginShutdown
      \<lparr> server = Some 1, handler = Some 7, task = Some 3, refCount = 2,
        isInCleanup = False, isDetachedFlag = False \<rparr> = Some r"
    by blast
  from T r have "fst r = None \<longleftrightarrow> refCount
      \<lparr> server = Some 1, handler = Some 7, task = Some 3, refCount = 2,
        isInCleanup = False, isDetachedFlag = False \<rparr> - 1 = 0"
    by blast
  then have r': "fst r \<noteq> None" by simp
  from T n have c: "\<exists>j1. fst (cleanup
      \<lparr> server = Some 1, handler = Some 7, task = Some 3, refCount = 2,
        isInCleanup = False, isDetachedFlag = False \<rparr>) = Some j1 \<and> refCount j1 = 1 \<and> (\<exists>ev. beginShutdown j1 = Some (None, ev))"
    by blast
  from T d have e: "fst (cleanup
      \<lparr> server = Some 1, handler = Some 7, task = None, refCount = 1,
        isInCleanup = False, isDetachedFlag = True \<rparr>) = None"
    by blast
  from n d f r r' c e show ?thesis by blast
qed

subsection \<open>work and finalizeExecute\<close>

lemma work_task_gone:
  "handler j = Some h \<Longrightarrow> \<not> isDetached j \<Longrightarrow> task j = None \<Longrightarrow>
     work JOB_DONE jobStatus prepare execute j =
       ([PushHandler h, Transfer h, PopHandler h], Inr JOB_DONE)"
  by (simp add: work_def)

lemma work_execute_throws:
  "handler j = Some h \<Longrightarrow> isDetached j \<or> task j \<noteq> None \<Longrightarrow>
     work JOB_DONE jobStatus None (Inl e) j =
       ([PushHandler h, Transfer h, SetRequestStart h, PrepareExecute h,
         Execute h, FinalizeExecute h, PopHandler h], Inl (Exception e))"
  by (auto simp: work_def)

lemma work_execute_returns:
  "handler j = Some h \<Longrightarrow> isDetached j \<or> task j \<noteq> None \<Longrightarrow>
     work JOB_DONE jobStatus None (Inr st) j =
       ([PushHandler h, Transfer h, SetRequestStart h, PrepareExecute h,
         Execute h, FinalizeExecute h, SetRequestEnd h, PopHandler h],
        Inr (jobStatus st))"
  by (auto simp: work_def)

text \<open>
  C5: when \<open>work\<close> reaches \<open>execute\<close> (the handler is there, the task is not
  already gone, \<open>prepareExecute\<close> returned), then whether \<open>execute\<close> throws or
  returns, \<open>finalizeExecute\<close> is called exactly once, after \<open>execute\<close>; the
  exception leaves \<open>work\<close>, and a normal return gives the handler status's job
  status. For a job that is not detached and whose task pointer is null, \<open>work\<close>
  returns \<open>JOB_DONE\<close> and calls neither \<open>prepareExecute\<close> nor \<open>execute\<close>.
\<close>

theorem C5_finalize_always_runs:
  "(handler j = Some h \<and> (isDetached j \<or> task j \<noteq> None) \<longrightarrow>
      (\<forall>e. snd (work JOB_DONE jobStatus None (Inl e) j) = Inl (Exception e) \<and>
           count_list (fst (work JOB_DONE jobStatus None (Inl e) j)) (FinalizeExecute h) = 1 \<and>
           (\<exists>pre post. fst (work JOB_DONE jobStatus None (Inl e) j) =
                pre @ [Execute h, FinalizeExecute h] @ post)) \<and>
      (\<forall>st. snd (work JOB_DONE jobStatus None (Inr st) j) = Inr (jobStatus st) \<and>
           count_list (fst (work JOB_DONE jobStatus None (Inr st) j)) (FinalizeExecute h) = 1 \<and>
           (\<exists>pre post. fst (work JOB_DONE jobStatus None (Inr st) j) =
                pre @ [Execute h, FinalizeExecute h] @ post))) \<and>
   (handler j = Some h \<and> \<not> isDetached j \<and> task j = None \<longrightarrow>
      snd (work JOB_DONE jobStatus prepare execute j) = Inr JOB_DONE \<and>
      PrepareExecute h \<notin> set (fst (work JOB_DONE jobStatus prepare execute j)) \<and>
      Execute h \<notin> set (fst (work JOB_DONE jobStatus prepare execute j)))"
proof (intro conjI impI allI)
  fix e
  assume a: "handler j = Some h \<and> (isDetached j \<or> task j \<noteq> None)"
  then have w: "work JOB_DONE jobStatus None (Inl e) j =
       ([PushHandler h, Transfer h, SetRequestStart h, PrepareExecute h,
         Execute h, FinalizeExecute h, PopHandler h], Inl (Exception e))"
    by (simp add: work_execute_throws)
  show "snd (work JOB_DONE jobStatus None (Inl e) j) = Inl (Exception e)"
    by (simp add: w)
  show "count_list (fst (work JOB_DONE jobStatus None (Inl e) j)) (FinalizeExecute h) = 1"
    by (simp add: w)
  have "[PushHandler h, Transfer h, SetRequestStart h, PrepareExecute h,
         Execute h, FinalizeExecute h, PopHandler h] =
        [PushHandler h, Transfer h, SetRequestStart h, PrepareExecute h] @
        [Execute h, FinalizeExecute h] @ [PopHandler h]"
    by simp
  then show "\<exists>pre post. fst (work JOB_DONE jobStatus None (Inl e) j) =
                pre @ [Execute h, FinalizeExecute h] @ post"
    unfolding w fst_conv by blast
next
  fix st
  assume a: "handler j = Some h \<and> (isDetached j \<or> task j \<noteq> None)"
  then have w: "work JOB_DONE jobStatus None (Inr st) j =
       ([PushHandler h, Transfer h, SetRequestStart h, PrepareExecute h,
         Execute h, FinalizeExecute h, SetRequestEnd h, PopHandler h],
        Inr (jobStatus st))"
    by (simp add: work_execute_returns)
  show "snd (work JOB_DONE jobStatus None (Inr st) j) = Inr (jobStatus st)"
    by (simp add: w)
  show "count_list (fst (work JOB_DONE jobStatus None (Inr st) j)) (FinalizeExecute h) = 1"
    by (simp add: w)
  have "[PushHandler h, Transfer h, SetRequestStart h, PrepareExecute h,
         Execute h, FinalizeExecute h, SetRequestEnd h, PopHandler h] =
        [PushHandler h, Transfer h, SetRequestStart h, PrepareExecute h] @
        [Execute h, FinalizeExecute h] @ [SetRequestEnd h, PopHandler h]"
    by simp
  then show "\<exists>pre post. fst (work JOB_DONE jobStatus None (Inr st) j) =
                pre @ [Execute h, FinalizeExecute h] @ post"
    unfolding w fst_conv by blast
next
  assume a: "handler j = Some h \<and> \<not> isDetached j \<and> task j = None"
  then have w: "work JOB_DONE jobStatus prepare execute j =
       ([PushHandler h, Transfer h, PopHandler h], Inr JOB_DONE)"
    by (simp add: work_task_gone)
  show "snd (work JOB_DONE jobStatus prepare execute j) = Inr JOB_DONE"
    by (simp add: w)
  show "PrepareExecute h \<notin> set (fst (work JOB_DONE jobStatus prepare execute j))"
    by (simp add: w)
  show "Execute h \<notin> set (fst (work JOB_DONE jobStatus prepare execute j))"
    by (simp add: w)
qed

theorem C5_finalize_always_runs_witness:
  "handler
      \<lparr> server = Some 1, handler = Some 7, task = Some 3, refCount = 2,
        isInCleanup = False, isDetachedFlag = False \<rparr> = Some 7 \<and>
   task
      \<lparr> server = Some 1, handler = Some 7, task = Some 3, refCount = 2,
        isInCleanup = False, isDetachedFlag = False \<rparr> \<noteq> None \<and>
   snd (work (0::nat) Suc None (Inl ''boom'')
      \<lparr> server = Some 1, handler = Some 7, task = Some 3, refCount = 2,
        isInCleanup = False, isDetachedFlag = False \<rparr>) = Inl (Exception ''boom'') \<and>
   count_list (fst (work (0::nat) Suc None (Inl ''boom'')
      \<lparr> server = Some 1, handler = Some 7, task = Some 3, refCount = 2,
        isInCleanup = False, isDetachedFlag = False \<rparr>)) (FinalizeExecute 7) = 1 \<and>
   snd (work (0::nat) Suc None (Inr (4::nat))
      \<lparr> server = Some 1, handler = Some 7, task = Some 3, refCount = 2,
        isInCleanup = False, isDetachedFlag = False \<rparr>) = Inr 5 \<and>
   handler
      \<lparr> server = Some 1, handler = Some 7, task = None, refCount = 1,
        isInCleanup = False, isDetachedFlag = False \<rparr> = Some 7 \<and>
   \<not> isDetached
      \<lparr> server = Some 1, handler = Some 7, task = None, refCount = 1,
        isInCleanup = False, isDetachedFlag = False \<rparr> \<and>
   task
      \<lparr> server = Some 1, handler = Some 7, task = None, refCount = 1,
        isInCleanup = False, isDetachedFlag = False \<rparr> = None \<and>
   snd (work (0::nat) Suc None (Inr (4::nat))
      \<lparr> server = Some 1, handler = Some 7, task = None, refCount = 1,
        isInCleanup = False, isDetachedFlag = False \<rparr>) = Inr 0"
proof -
  have a: "handler
      \<lparr> server = Some 1, handler = Some 7, task = Some 3, refCount = 2,
        isInCleanup = False, isDetachedFlag = False \<rparr> = Some 7 \<and> (isDetached
      \<lparr> server = Some 1, handler = Some 7, task = Some 3, refCount = 2,
        isInCleanup = False, isDetachedFlag = False \<rparr> \<or> task
      \<lparr> server = Some 1, handler = Some 7, task = Some 3, refCount = 2,
        isInCleanup = False, isDetachedFlag = False \<rparr> \<noteq> None)"
    by simp
  have b: "handler
      \<lparr> server = Some 1, handler = Some 7, task = None, refCount = 1,
        isInCleanup = False, isDetachedFlag = False \<rparr> = Some 7 \<and> \<not> isDetached
      \<lparr> server = Some 1, handler = Some 7, task = None, refCount = 1,
        isInCleanup = False, isDetachedFlag = False \<rparr> \<and> task
      \<lparr> server = Some 1, handler = Some 7, task = None, refCount = 1,
        isInCleanup = False, isDetachedFlag = False \<rparr> = None"
    by (simp add: isDetached_def)
  note T1 = C5_finalize_always_runs [of
      "\<lparr> server = Some 1, handler = Some 7, task = Some 3, refCount = 2,
        isInCleanup = False, isDetachedFlag = False \<rparr>" 7 "0::nat" Suc None "Inr (4::nat)", THEN conjunct1, rule_format, OF a]
  note T2 = C5_finalize_always_runs [of
      "\<lparr> server = Some 1, handler = Some 7, task = None, refCount = 1,
        isInCleanup = False, isDetachedFlag = False \<rparr>" 7 "0::nat" Suc None "Inr (4::nat)", THEN conjunct2, rule_format, OF b]
  from T1 have 1: "snd (work (0::nat) Suc None (Inl ''boom'')
      \<lparr> server = Some 1, handler = Some 7, task = Some 3, refCount = 2,
        isInCleanup = False, isDetachedFlag = False \<rparr>) = Inl (Exception ''boom'')"
    by blast
  from T1 have 2: "count_list (fst (work (0::nat) Suc None (Inl ''boom'')
      \<lparr> server = Some 1, handler = Some 7, task = Some 3, refCount = 2,
        isInCleanup = False, isDetachedFlag = False \<rparr>)) (FinalizeExecute 7) = 1"
    by blast
  from T1 have 3: "snd (work (0::nat) Suc None (Inr (4::nat))
      \<lparr> server = Some 1, handler = Some 7, task = Some 3, refCount = 2,
        isInCleanup = False, isDetachedFlag = False \<rparr>) = Inr (Suc 4)"
    by blast
  from T2 have 4: "snd (work (0::nat) Suc None (Inr (4::nat))
      \<lparr> server = Some 1, handler = Some 7, task = None, refCount = 1,
        isInCleanup = False, isDetachedFlag = False \<rparr>) = Inr 0"
    by blast
  from a b 1 2 3 4 show ?thesis by simp
qed

section \<open>Properties of the two-thread job\<close>

text \<open>
  C1: for a job that is not detached, a task pointer that is non-null when \<open>cleanup\<close>
  starts, and still non-null when \<open>cleanup\<close> tests it, does not make \<open>cleanup\<close> hand
  the handler over and signal. From a job built with handler 7 and task 3:
  \<open>beginShutdown\<close> leaves its wait before \<open>cleanup\<close> sets the flag and writes null
  to the task pointer after \<open>cleanup\<close> has tested it; \<open>cleanup\<close> then goes through
  the null pointer in \<open>_task->setHandler\<close>, having made no call, and the job still
  holds its handler. When the write comes two steps later, the handler has been handed
  over and taken from the job, and \<open>_task->signal\<close> goes through the null pointer:
  the task is never signalled.
\<close>

theorem C1_handoff_lost_to_shutdown:
  "\<not> isDetached
      \<lparr> server = Some 1, handler = Some 7, task = Some 3, refCount = 2,
        isInCleanup = False, isDetachedFlag = False \<rparr> \<and>
   task
      \<lparr> server = Some 1, handler = Some 7, task = Some 3, refCount = 2,
        isInCleanup = False, isDetachedFlag = False \<rparr> = Some 3 \<and>
   task (job (run_schedule [Cleanup, Shutdown, Cleanup, Cleanup]
      (threads_init \<lparr> server = Some 1, handler = Some 7, task = Some 3, refCount = 2,
        isInCleanup = False, isDetachedFlag = False \<rparr>))) = Some 3 \<and>
   cpc (run_schedule [Cleanup, Shutdown, Cleanup, Cleanup]
      (threads_init \<lparr> server = Some 1, handler = Some 7, task = Some 3, refCount = 2,
        isInCleanup = False, isDetachedFlag = False \<rparr>)) = CSetHandler \<and>
   trace (run_schedule [Cleanup, Shutdown, Cleanup, Cleanup, Shutdown, Cleanup]
      (threads_init \<lparr> server = Some 1, handler = Some 7, task = Some 3, refCount = 2,
        isInCleanup = False, isDetachedFlag = False \<rparr>)) = [] \<and>
   fault (run_schedule [Cleanup, Shutdown, Cleanup, Cleanup, Shutdown, Cleanup]
      (threads_init \<lparr> server = Some 1, handler = Some 7, task = Some 3, refCount = 2,
        isInCleanup = False, isDetachedFlag = False \<rparr>)) = Some NullDereference \<and>
   handler (job (run_schedule [Cleanup, Shutdown, Cleanup, Cleanup, Shutdown, Cleanup]
      (threads_init \<lparr> server = Some 1, handler = Some 7, task = Some 3, refCount = 2,
        isInCleanup = False, isDetachedFlag = False \<rparr>))) = Some 7 \<and>
   trace (run_schedule
      [Cleanup, Shutdown, Cleanup, Cleanup, Cleanup, Cleanup, Shutdown, Cleanup]
      (threads_init \<lparr> server = Some 1, handler = Some 7, task = Some 3, refCount = 2,
        isInCleanup = False, isDetachedFlag = False \<rparr>)) = [SetHandler 3 (Some 7)] \<and>
   fault (run_schedule
      [Cleanup, Shutdown, Cleanup, Cleanup, Cleanup, Cleanup, Shutdown, Cleanup]
      (threads_init \<lparr> server = Some 1, handler = Some 7, task = Some 3, refCount = 2,
        isInCleanup = False, isDetachedFlag = False \<rparr>)) = Some NullDereference \<and>
   handler (job (run_schedule
      [Cleanup, Shutdown, Cleanup, Cleanup, Cleanup, Cleanup, Shutdown, Cleanup]
      (threads_init \<lparr> server = Some 1, handler = Some 7, task = Some 3, refCount = 2,
        isInCleanup = False, isDetachedFlag = False \<rparr>))) = None"
  by (simp add: threads_init_def thread_step_def cleanup_step_def shutdown_step_def
      isDetached_def)

text \<open>
  C3: the wait in \<open>beginShutdown\<close> and its write of the task pointer are two steps,
  and \<open>cleanup\<close> can set its flag between them. From a job built with handler 7 and
  task 3: \<open>beginShutdown\<close> reads the flag (clear) and leaves its loop; \<open>cleanup\<close>
  tests \<open>isDetached\<close>, sets the flag and finds the task pointer non-null;
  \<open>beginShutdown\<close> then sets the task pointer to null while the flag is set; the
  next step of \<open>cleanup\<close>, \<open>_task->setHandler\<close>, goes through the null pointer.
\<close>

theorem C3_task_nulled_during_cleanup:
  "isInCleanup (job (run_schedule [Shutdown, Cleanup, Cleanup, Cleanup]
      (threads_init \<lparr> server = Some 1, handler = Some 7, task = Some 3, refCount = 2,
        isInCleanup = False, isDetachedFlag = False \<rparr>))) \<and>
   spc (run_schedule [Shutdown, Cleanup, Cleanup, Cleanup]
      (threads_init \<lparr> server = Some 1, handler = Some 7, task = Some 3, refCount = 2,
        isInCleanup = False, isDetachedFlag = False \<rparr>)) = SNullTask \<and>
   cpc (run_schedule [Shutdown, Cleanup, Cleanup, Cleanup]
      (threads_init \<lparr> server = Some 1, handler = Some 7, task = Some 3, refCount = 2,
        isInCleanup = False, isDetachedFlag = False \<rparr>)) = CSetHandler \<and>
   task (job (run_schedule [Shutdown, Cleanup, Cleanup, Cleanup]
      (threads_init \<lparr> server = Some 1, handler = Some 7, task = Some 3, refCount = 2,
        isInCleanup = False, isDetachedFlag = False \<rparr>))) = Some 3 \<and>
   isInCleanup (job (run_schedule [Shutdown, Cleanup, Cleanup, Cleanup, Shutdown]
      (threads_init \<lparr> server = Some 1, handler = Some 7, task = Some 3, refCount = 2,
        isInCleanup = False, isDetachedFlag = False \<rparr>))) \<and>
   task (job (run_schedule [Shutdown, Cleanup, Cleanup, Cleanup, Shutdown]
      (threads_init \<lparr> server = Some 1, handler = Some 7, task = Some 3, refCount = 2,
        isInCleanup = False, isDetachedFlag = False \<rparr>))) = None \<and>
   fault (run_schedule [Shutdown, Cleanup, Cleanup, Cleanup, Shutdown, Cleanup]
      (threads_init \<lparr> server = Some 1, handler = Some 7, task = Some 3, refCount = 2,
        isInCleanup = False, isDetachedFlag = False \<rparr>)) = Some NullDereference"
  by (simp add: threads_init_def thread_step_def cleanup_step_def shutdown_step_def
      isDetached_def)

section \<open>Properties of SchedulerThread\<close>

text \<open>
  C6: \<open>registerTask\<close> on a stopped thread returns false and leaves the thread as it
  was. Otherwise, for a scheduler and a task that are not null: called from the loop's
  own thread it calls \<open>setupTask\<close>, and on success adds one to the task count and
  returns true, on failure logs, cleans the task up, deletes it and returns false;
  called from another thread it takes the queue lock, appends the work item
  \<open>{SETUP, scheduler, task}\<close> to the queue, sets the has-work flag, wakes the loop,
  and returns true.
\<close>

theorem C6_registerTask:
  "(stopped st \<longrightarrow> registerTask same_thread setup_ok sched tk st = Inr (False, st)) \<and>
   (\<not> stopped st \<and> sched \<noteq> None \<and> tk \<noteq> None \<and> same_thread \<and> setup_ok \<longrightarrow>
      registerTask same_thread setup_ok sched tk st =
        Inr (True, st\<lparr>numberTasks := numberTasks st + 1,
                       sched_events := sched_events st @ [SetupTask tk sched]\<rparr>)) \<and>
   (\<not> stopped st \<and> sched \<noteq> None \<and> tk \<noteq> None \<and> same_thread \<and> \<not> setup_ok \<longrightarrow>
      registerTask same_thread setup_ok sched tk st =
        Inr (False, st\<lparr>sched_events := sched_events st @
               [SetupTask tk sched,
                LogWarning ''In SchedulerThread::registerTask setupTask has failed'',
                CleanupTask tk, DeleteTask tk]\<rparr>)) \<and>
   (\<not> stopped st \<and> sched \<noteq> None \<and> tk \<noteq> None \<and> \<not> same_thread \<longrightarrow>
      registerTask same_thread setup_ok sched tk st =
        Inr (True, st\<lparr>queue := queue st @ [\<lparr> w_work = SETUP, w_scheduler = sched, w_task = tk \<rparr>],
                       hasWork := True,
                       sched_events := sched_events st @
                         [LockQueue,
                          PushBack \<lparr> w_work = SETUP, w_scheduler = sched, w_task = tk \<rparr>,
                          WakeupLoop, UnlockQueue]\<rparr>))"
  by (simp add: registerTask_def emit_def Let_def)

theorem C6_registerTask_witness:
  "\<not> stopped SchedulerThread_new \<and>
   registerTask False True (Some 1) (Some 5) SchedulerThread_new =
     Inr (True, SchedulerThread_new
            \<lparr>queue := [\<lparr> w_work = SETUP, w_scheduler = Some 1, w_task = Some 5 \<rparr>],
             hasWork := True,
             sched_events :=
               [LockQueue, PushBack \<lparr> w_work = SETUP, w_scheduler = Some 1, w_task = Some 5 \<rparr>,
                WakeupLoop, UnlockQueue]\<rparr>) \<and>
   registerTask True True (Some 1) (Some 5) SchedulerThread_new =
     Inr (True, SchedulerThread_new
            \<lparr>numberTasks := 1, sched_events := [SetupTask (Some 5) (Some 1)]\<rparr>) \<and>
   registerTask True False (Some 1) (Some 5) SchedulerThread_new =
     Inr (False, SchedulerThread_new
            \<lparr>sched_events :=
               [SetupTask (Some 5) (Some 1),
                LogWarning ''In SchedulerThread::registerTask setupTask has failed'',
                CleanupTask (Some 5), DeleteTask (Some 5)]\<rparr>) \<and>
   stopped (SchedulerThread_new\<lparr>stopped := True\<rparr>) \<and>
   registerTask False True (Some 1) (Some 5) (SchedulerThread_new\<lparr>stopped := True\<rparr>) =
     Inr (False, SchedulerThread_new\<lparr>stopped := True\<rparr>)"
proof -
  have n: "\<not> stopped SchedulerThread_new" "queue SchedulerThread_new = []"
    "sched_events SchedulerThread_new = []" "numberTasks SchedulerThread_new = 0"
    by (simp_all add: SchedulerThread_new_def)
  have s: "stopped (SchedulerThread_new\<lparr>stopped := True\<rparr>)" by simp
  from C6_registerTask [of SchedulerThread_new False True "Some 1" "Some 5"] n
  have 1: "registerTask False True (Some 1) (Some 5) SchedulerThread_new =
     Inr (True, SchedulerThread_new
            \<lparr>queue := [\<lparr> w_work = SETUP, w_scheduler = Some 1, w_task = Some 5 \<rparr>],
             hasWork := True,
             sched_events :=
               [LockQueue, PushBack \<lparr> w_work = SETUP, w_scheduler = Some 1, w_task = Some 5 \<rparr>,
                WakeupLoop, UnlockQueue]\<rparr>)"
    by simp
  from C6_registerTask [of SchedulerThread_new True True "Some 1" "Some 5"] n
  have 2: "registerTask True True (Some 1) (Some 5) SchedulerThread_new =
     Inr (True, SchedulerThread_new
            \<lparr>numberTasks := 1, sched_events := [SetupTask (Some 5) (Some 1)]\<rparr>)"
    by simp
  from C6_registerTask [of SchedulerThread_new True False "Some 1" "Some 5"] n
  have 3: "registerTask True False (Some 1) (Some 5) SchedulerThread_new =
     Inr (False, SchedulerThread_new
            \<lparr>sched_events :=
               [SetupTask (Some 5) (Some 1),
                LogWarning ''In SchedulerThread::registerTask setupTask has failed'',
                CleanupTask (Some 5), DeleteTask (Some 5)]\<rparr>)"
    by simp
  from C6_registerTask [of "SchedulerThread_new\<lparr>stopped := True\<rparr>" False True "Some 1" "Some 5"] s
  have 4: "registerTask False True (Some 1) (Some 5) (SchedulerThread_new\<lparr>stopped := True\<rparr>) =
     Inr (False, SchedulerThread_new\<lparr>stopped := True\<rparr>)"
    by blast
  from n(1) s 1 2 3 4 show ?thesis by blast
qed

subsection \<open>Exceptions from the event loop\<close>

lemma stopping_emit [simp]: "stopping (emit evs st) = stopping st"
  by (simp add: emit_def)

lemma stopping_process_work [simp]: "stopping (process_work setup_ok w st) = stopping st"
  by (simp add: process_work_def Let_def split: work_e.splits)

lemma stopping_process_all: "stopping (process_all setup_ok ws st) = stopping st"
  by (induction ws arbitrary: st) simp_all

lemma stopping_drain_queue [simp]: "stopping (drain_queue setup_ok st) = stopping st"
  by (simp add: drain_queue_def stopping_process_all)

lemma stopping_poll: "stopping (poll p st) = (stopping st \<or> stop_in_poll p)"
  by (simp add: poll_def Let_def)

lemma stopping_after_poll:
  "stopping (after_poll setup_ok p st) = (stopping st \<or> stop_after_poll p)"
  by (simp add: after_poll_def Let_def)

lemma run_loop_throw_stopping_posix:
  "\<not> stopping st \<Longrightarrow> poll_throws p = Some e \<Longrightarrow> stop_in_poll p \<Longrightarrow>
     run_loop True setup_ok (p # ps) st =
       Propagated e (emit [LogWarning ''caught cancelation exception during work''] (poll p st))"
  by (simp add: Let_def stopping_poll)

lemma run_loop_throw_stopping_other:
  "\<not> stopping st \<Longrightarrow> poll_throws p = Some e \<Longrightarrow> stop_in_poll p \<Longrightarrow>
     run_loop False setup_ok (p # ps) st =
       LoopLeft (after_poll setup_ok p
                  (emit [LogWarning ''caught exception from ev_loop''] (poll p st)))"
  by (cases ps) (simp_all add: Let_def stopping_poll stopping_after_poll)

lemma run_loop_throw_running:
  "\<not> stopping st \<Longrightarrow> poll_throws p = Some e \<Longrightarrow> \<not> stop_in_poll p \<Longrightarrow>
     run_loop posix setup_ok (p # ps) st =
       run_loop posix setup_ok ps
         (after_poll setup_ok p (emit [LogWarning ''caught exception from ev_loop''] (poll p st)))"
  by (simp add: Let_def stopping_poll)

text \<open>
  C7, as the code has it. In a build with \<open>TRI_HAVE_POSIX_THREADS\<close>, an exception
  from the event loop caught while the stopping flag is set is logged and thrown again,
  which ends \<open>run\<close>. In a build without it, such an exception is logged and dropped,
  and the loop is then left in the ordinary way because the flag is set. In both
  builds, an exception caught while the stopping flag is clear is logged, the command
  queue is drained, and the loop goes on to its next pass; if the flag is still clear
  there it polls again.
\<close>

theorem C7_poll_exception:
  "\<not> stopping st \<and> poll_throws p = Some e \<longrightarrow>
     (stop_in_poll p \<longrightarrow>
        run_loop True setup_ok (p # ps) st =
          Propagated e
            (emit [LogWarning ''caught cancelation exception during work''] (poll p st)) \<and>
        run_loop False setup_ok (p # ps) st =
          LoopLeft (after_poll setup_ok p
                      (emit [LogWarning ''caught exception from ev_loop''] (poll p st)))) \<and>
     (\<not> stop_in_poll p \<longrightarrow>
        run_loop posix setup_ok (p # ps) st =
          run_loop posix setup_ok ps
            (after_poll setup_ok p
               (emit [LogWarning ''caught exception from ev_loop''] (poll p st))) \<and>
        (\<not> stop_after_poll p \<longrightarrow>
           run_loop posix setup_ok [p] st =
             StillRunning
               (after_poll setup_ok p
                  (emit [LogWarning ''caught exception from ev_loop''] (poll p st)))))"
proof (intro impI conjI)
  assume a: "\<not> stopping st \<and> poll_throws p = Some e" and b: "stop_in_poll p"
  from a b show "run_loop True setup_ok (p # ps) st =
          Propagated e
            (emit [LogWarning ''caught cancelation exception during work''] (poll p st))"
    using run_loop_throw_stopping_posix [of st p e setup_ok ps] by blast
  from a b show "run_loop False setup_ok (p # ps) st =
          LoopLeft (after_poll setup_ok p
                      (emit [LogWarning ''caught exception from ev_loop''] (poll p st)))"
    using run_loop_throw_stopping_other [of st p e setup_ok ps] by blast
next
  assume a: "\<not> stopping st \<and> poll_throws p = Some e" and b: "\<not> stop_in_poll p"
  from a b show "run_loop posix setup_ok (p # ps) st =
          run_loop posix setup_ok ps
            (after_poll setup_ok p
               (emit [LogWarning ''caught exception from ev_loop''] (poll p st)))"
    using run_loop_throw_running [of st p e posix setup_ok ps] by blast
next
  assume a: "\<not> stopping st \<and> poll_throws p = Some e" and b: "\<not> stop_in_poll p"
    and c: "\<not> stop_after_poll p"
  from a b c have "\<not> stopping (after_poll setup_ok p
               (emit [LogWarning ''caught exception from ev_loop''] (poll p st)))"
    by (simp add: stopping_after_poll stopping_poll)
  with a b show "run_loop posix setup_ok [p] st =
             StillRunning
               (after_poll setup_ok p
                  (emit [LogWarning ''caught exception from ev_loop''] (poll p st)))"
    using run_loop_throw_running [of st p e posix setup_ok "[]"] by simp
qed

theorem C7_poll_exception_witness:
  "\<not> stopping SchedulerThread_new \<and>
   poll_throws
      \<lparr> enqueued = [], poll_throws = Some ''ev'', stop_in_poll = True,
         stop_after_poll = False \<rparr> = Some ''ev'' \<and>
   stop_in_poll
      \<lparr> enqueued = [], poll_throws = Some ''ev'', stop_in_poll = True,
         stop_after_poll = False \<rparr> \<and>
   run_loop True setup_succeeds [
      \<lparr> enqueued = [], poll_throws = Some ''ev'', stop_in_poll = True,
         stop_after_poll = False \<rparr>] SchedulerThread_new =
     Propagated ''ev''
       (SchedulerThread_new
          \<lparr>stopping := True,
           sched_events :=
             [EventLoop, LogWarning ''caught cancelation exception during work'']\<rparr>) \<and>
   \<not> stop_in_poll
      \<lparr> enqueued = [], poll_throws = Some ''ev'', stop_in_poll = False,
         stop_after_poll = False \<rparr> \<and>
   \<not> stop_after_poll
      \<lparr> enqueued = [], poll_throws = Some ''ev'', stop_in_poll = False,
         stop_after_poll = False \<rparr> \<and>
   run_loop True setup_succeeds [
      \<lparr> enqueued = [], poll_throws = Some ''ev'', stop_in_poll = False,
         stop_after_poll = False \<rparr>] SchedulerThread_new =
     StillRunning
       (SchedulerThread_new
          \<lparr>sched_events := [EventLoop, LogWarning ''caught exception from ev_loop'']\<rparr>)"
proof -
  have a: "\<not> stopping SchedulerThread_new \<and> poll_throws
      \<lparr> enqueued = [], poll_throws = Some ''ev'', stop_in_poll = True,
         stop_after_poll = False \<rparr> = Some ''ev''"
    by (simp add: SchedulerThread_new_def)
  have b: "\<not> stopping SchedulerThread_new \<and> poll_throws
      \<lparr> enqueued = [], poll_throws = Some ''ev'', stop_in_poll = False,
         stop_after_poll = False \<rparr> = Some ''ev''"
    by (simp add: SchedulerThread_new_def)
  have c: "stop_in_poll
      \<lparr> enqueued = [], poll_throws = Some ''ev'', stop_in_poll = True,
         stop_after_poll = False \<rparr>"
    by simp
  have d: "\<not> stop_in_poll
      \<lparr> enqueued = [], poll_throws = Some ''ev'', stop_in_poll = False,
         stop_after_poll = False \<rparr>" "\<not> stop_after_poll
      \<lparr> enqueued = [], poll_throws = Some ''ev'', stop_in_poll = False,
         stop_after_poll = False \<rparr>"
    by simp_all
  from C7_poll_exception [of SchedulerThread_new
      "\<lparr> enqueued = [], poll_throws = Some ''ev'', stop_in_poll = True,
         stop_after_poll = False \<rparr>" "''ev''" setup_succeeds "[]"] a c
  have 1: "run_loop True setup_succeeds [
      \<lparr> enqueued = [], poll_throws = Some ''ev'', stop_in_poll = True,
         stop_after_poll = False \<rparr>] SchedulerThread_new =
     Propagated ''ev''
       (emit [LogWarning ''caught cancelation exception during work''] (poll
      \<lparr> enqueued = [], poll_throws = Some ''ev'', stop_in_poll = True,
         stop_after_poll = False \<rparr> SchedulerThread_new))"
    by blast
  from C7_poll_exception [of SchedulerThread_new
      "\<lparr> enqueued = [], poll_throws = Some ''ev'', stop_in_poll = False,
         stop_after_poll = False \<rparr>" "''ev''" setup_succeeds "[]" True] b d
  have 2: "run_loop True setup_succeeds [
      \<lparr> enqueued = [], poll_throws = Some ''ev'', stop_in_poll = False,
         stop_after_poll = False \<rparr>] SchedulerThread_new =
     StillRunning
       (after_poll setup_succeeds
      \<lparr> enqueued = [], poll_throws = Some ''ev'', stop_in_poll = False,
         stop_after_poll = False \<rparr>
          (emit [LogWarning ''caught exception from ev_loop''] (poll
      \<lparr> enqueued = [], poll_throws = Some ''ev'', stop_in_poll = False,
         stop_after_poll = False \<rparr> SchedulerThread_new)))"
    by blast
  from a c d 1 2 show ?thesis
    by (simp add: SchedulerThread_new_def emit_def poll_def after_poll_def drain_queue_def)
qed

text \<open>
  The claim as written fails in a build without \<open>TRI_HAVE_POSIX_THREADS\<close>: the
  poll throws while the stopping flag is set, and \<open>run\<close> logs the exception and
  leaves its loop without throwing.
\<close>

theorem C7_exception_dropped_while_stopping:
  "run_loop False setup_succeeds [
      \<lparr> enqueued = [], poll_throws = Some ''ev'', stop_in_poll = True,
         stop_after_poll = False \<rparr>] SchedulerThread_new =
     LoopLeft
       (SchedulerThread_new
          \<lparr>stopping := True,
           sched_events := [EventLoop, LogWarning ''caught exception from ev_loop'']\<rparr>)"
  by (simp add: SchedulerThread_new_def emit_def poll_def after_poll_def drain_queue_def)

section \<open>Properties of WorkMonitor\<close>

lemma pushThread_monitor_empty: "pushThread 1 monitor_empty = Inr monitor0"
  by (simp add: pushThread_def monitor_empty_def monitor0_def createWorkDescription_def
      WorkDescription_new_def Thread_workDescription_def set_data_def
      activateWorkDescription_def Thread_setWorkDescription_def)

lemma createWorkDescription_ok:
  assumes "CURRENT_THREAD m = Some th"
    and "list_all (\<lambda>d. d < length (descriptions m)) (EMPTY_WORK_DESCRIPTION m)"
  shows "\<exists>d m1. createWorkDescription ty m = Inr (d, m1) \<and>
           d < length (descriptions m1) \<and>
           wd_type (descriptions m1 ! d) = ty \<and>
           wd_destroy (descriptions m1 ! d) \<and>
           wd_prev (descriptions m1 ! d) = workDescriptionOf m th \<and>
           workDescriptionOf m1 = workDescriptionOf m \<and>
           CURRENT_THREAD m1 = CURRENT_THREAD m \<and>
           FREEABLE_WORK_DESCRIPTION m1 = FREEABLE_WORK_DESCRIPTION m \<and>
           deleter_calls m1 = deleter_calls m"
proof (cases "EMPTY_WORK_DESCRIPTION m")
  case Nil
  with assms show ?thesis
    by (simp add: createWorkDescription_def WorkDescription_new_def Thread_workDescription_def)
next
  case (Cons d rest)
  with assms show ?thesis
    by (simp add: createWorkDescription_def Thread_workDescription_def)
qed

lemma pushHandler_ok:
  assumes "CURRENT_THREAD m = Some th"
    and "list_all (\<lambda>d. d < length (descriptions m)) (EMPTY_WORK_DESCRIPTION m)"
  shows "\<exists>d m1. pushHandler h m = Inr m1 \<and>
           d < length (descriptions m1) \<and>
           wd_type (descriptions m1 ! d) = HANDLER \<and>
           wd_destroy (descriptions m1 ! d) \<and>
           wd_data (descriptions m1 ! d) = HandlerData h \<and>
           wd_prev (descriptions m1 ! d) = workDescriptionOf m th \<and>
           workDescriptionOf m1 = (workDescriptionOf m)(th := Some d) \<and>
           CURRENT_THREAD m1 = CURRENT_THREAD m \<and>
           FREEABLE_WORK_DESCRIPTION m1 = FREEABLE_WORK_DESCRIPTION m \<and>
           deleter_calls m1 = deleter_calls m"
proof -
  from createWorkDescription_ok [OF assms, of HANDLER]
  obtain d m0 where c: "createWorkDescription HANDLER m = Inr (d, m0)"
    "d < length (descriptions m0)"
    "wd_type (descriptions m0 ! d) = HANDLER"
    "wd_destroy (descriptions m0 ! d)"
    "wd_prev (descriptions m0 ! d) = workDescriptionOf m th"
    "workDescriptionOf m0 = workDescriptionOf m"
    "CURRENT_THREAD m0 = CURRENT_THREAD m"
    "FREEABLE_WORK_DESCRIPTION m0 = FREEABLE_WORK_DESCRIPTION m"
    "deleter_calls m0 = deleter_calls m"
    by blast
  let ?m1 = "Thread_setWorkDescription th (Some d)
      (m0\<lparr>descriptions := (descriptions m0)[d := (descriptions m0 ! d)\<lparr>wd_data := HandlerData h\<rparr>]\<rparr>)"
  from c assms(1) have "pushHandler h m = Inr ?m1"
    by (simp add: pushHandler_def set_data_def activateWorkDescription_def)
  moreover from c have "d < length (descriptions ?m1) \<and>
           wd_type (descriptions ?m1 ! d) = HANDLER \<and>
           wd_destroy (descriptions ?m1 ! d) \<and>
           wd_data (descriptions ?m1 ! d) = HandlerData h \<and>
           wd_prev (descriptions ?m1 ! d) = workDescriptionOf m th \<and>
           workDescriptionOf ?m1 = (workDescriptionOf m)(th := Some d) \<and>
           CURRENT_THREAD ?m1 = CURRENT_THREAD m \<and>
           FREEABLE_WORK_DESCRIPTION ?m1 = FREEABLE_WORK_DESCRIPTION m \<and>
           deleter_calls ?m1 = deleter_calls m"
    by (simp add: Thread_setWorkDescription_def)
  ultimately show ?thesis by blast
qed

lemma popHandler_top:
  assumes "CURRENT_THREAD m = Some th"
    and "workDescriptionOf m th = Some d"
    and "d < length (descriptions m)"
    and "wd_data (descriptions m ! d) = HandlerData h"
  shows "popHandler h m =
           Inr (m\<lparr>workDescriptionOf := (workDescriptionOf m)(th := wd_prev (descriptions m ! d)),
                  descriptions := (descriptions m)[d := (descriptions m ! d)\<lparr>wd_destroy := False\<rparr>],
                  FREEABLE_WORK_DESCRIPTION := FREEABLE_WORK_DESCRIPTION m @ [d]\<rparr>)"
  using assms
  by (simp add: popHandler_def deactivate_checked_def deactivateWorkDescription_def
      Thread_setPrevWorkDescription_def set_destroy_def freeWorkDescription_def)


lemma pushHandler_frame:
  assumes "CURRENT_THREAD m = Some th" and "empty_queue_ok m"
  shows "\<exists>d m1. pushHandler h m = Inr m1 \<and>
           d < length (descriptions m1) \<and>
           wd_data (descriptions m1 ! d) = HandlerData h \<and>
           wd_prev (descriptions m1 ! d) = workDescriptionOf m th \<and>
           workDescriptionOf m1 = (workDescriptionOf m)(th := Some d) \<and>
           CURRENT_THREAD m1 = CURRENT_THREAD m \<and>
           empty_queue_ok m1 \<and>
           d \<notin> set (EMPTY_WORK_DESCRIPTION m1) \<and>
           set (EMPTY_WORK_DESCRIPTION m1) \<subseteq> set (EMPTY_WORK_DESCRIPTION m) \<and>
           (d \<in> set (EMPTY_WORK_DESCRIPTION m) \<or> d = length (descriptions m)) \<and>
           length (descriptions m) \<le> length (descriptions m1) \<and>
           (\<forall>d'<length (descriptions m). d' \<noteq> d \<longrightarrow> descriptions m1 ! d' = descriptions m ! d')"
proof (cases "EMPTY_WORK_DESCRIPTION m")
  case Nil
  let ?d = "length (descriptions m)"
  let ?m1 = "m\<lparr>descriptions := descriptions m @
       [\<lparr> wd_type = HANDLER, wd_destroy = True, wd_prev = workDescriptionOf m th,
          wd_data = HandlerData h \<rparr>],
       workDescriptionOf := (workDescriptionOf m)(th := Some ?d)\<rparr>"
  from Nil assms have "pushHandler h m = Inr ?m1"
    by (simp add: pushHandler_def createWorkDescription_def WorkDescription_new_def
        Thread_workDescription_def set_data_def activateWorkDescription_def
        Thread_setWorkDescription_def)
  moreover from Nil assms have "?d < length (descriptions ?m1) \<and>
           wd_data (descriptions ?m1 ! ?d) = HandlerData h \<and>
           wd_prev (descriptions ?m1 ! ?d) = workDescriptionOf m th \<and>
           workDescriptionOf ?m1 = (workDescriptionOf m)(th := Some ?d) \<and>
           CURRENT_THREAD ?m1 = CURRENT_THREAD m \<and>
           empty_queue_ok ?m1 \<and>
           ?d \<notin> set (EMPTY_WORK_DESCRIPTION ?m1) \<and>
           set (EMPTY_WORK_DESCRIPTION ?m1) \<subseteq> set (EMPTY_WORK_DESCRIPTION m) \<and>
           (?d \<in> set (EMPTY_WORK_DESCRIPTION m) \<or> ?d = length (descriptions m)) \<and>
           length (descriptions m) \<le> length (descriptions ?m1) \<and>
           (\<forall>d'<length (descriptions m). d' \<noteq> ?d \<longrightarrow> descriptions ?m1 ! d' = descriptions m ! d')"
    by (simp add: empty_queue_ok_def nth_append)
  ultimately show ?thesis by blast
next
  case (Cons d rest)
  with assms have v: "d < length (descriptions m)" "d \<notin> set rest" "distinct rest"
    "list_all (\<lambda>d. d < length (descriptions m)) rest"
    by (simp_all add: empty_queue_ok_def)
  let ?m1 = "m\<lparr>EMPTY_WORK_DESCRIPTION := rest,
       descriptions := (descriptions m)
         [d := (descriptions m ! d)
            \<lparr>wd_type := HANDLER, wd_prev := workDescriptionOf m th, wd_destroy := True,
             wd_data := HandlerData h\<rparr>],
       workDescriptionOf := (workDescriptionOf m)(th := Some d)\<rparr>"
  from Cons assms v have "pushHandler h m = Inr ?m1"
    by (simp add: pushHandler_def createWorkDescription_def
        Thread_workDescription_def set_data_def activateWorkDescription_def
        Thread_setWorkDescription_def)
  moreover from Cons v have "d < length (descriptions ?m1) \<and>
           wd_data (descriptions ?m1 ! d) = HandlerData h \<and>
           wd_prev (descriptions ?m1 ! d) = workDescriptionOf m th \<and>
           workDescriptionOf ?m1 = (workDescriptionOf m)(th := Some d) \<and>
           CURRENT_THREAD ?m1 = CURRENT_THREAD m \<and>
           empty_queue_ok ?m1 \<and>
           d \<notin> set (EMPTY_WORK_DESCRIPTION ?m1) \<and>
           set (EMPTY_WORK_DESCRIPTION ?m1) \<subseteq> set (EMPTY_WORK_DESCRIPTION m) \<and>
           (d \<in> set (EMPTY_WORK_DESCRIPTION m) \<or> d = length (descriptions m)) \<and>
           length (descriptions m) \<le> length (descriptions ?m1) \<and>
           (\<forall>d'<length (descriptions m). d' \<noteq> d \<longrightarrow> descriptions ?m1 ! d' = descriptions m ! d')"
    by (auto simp: empty_queue_ok_def)
  ultimately show ?thesis by blast
qed

lemma nested_handlers_lifo:
  "CURRENT_THREAD m = Some th \<Longrightarrow> empty_queue_ok m \<Longrightarrow>
     \<exists>m'. nested_handlers hs m = Inr m' \<and>
          workDescriptionOf m' = workDescriptionOf m \<and>
          CURRENT_THREAD m' = CURRENT_THREAD m \<and>
          length (descriptions m) \<le> length (descriptions m') \<and>
          (\<forall>d<length (descriptions m). d \<notin> set (EMPTY_WORK_DESCRIPTION m) \<longrightarrow>
               descriptions m' ! d = descriptions m ! d)"
proof (induction hs arbitrary: m)
  case Nil
  then show ?case by simp
next
  case (Cons h hs)
  from pushHandler_frame [OF Cons.prems, of h]
  obtain d m1 where p: "pushHandler h m = Inr m1"
    "d < length (descriptions m1)"
    "wd_data (descriptions m1 ! d) = HandlerData h"
    "wd_prev (descriptions m1 ! d) = workDescriptionOf m th"
    "workDescriptionOf m1 = (workDescriptionOf m)(th := Some d)"
    "CURRENT_THREAD m1 = CURRENT_THREAD m"
    "empty_queue_ok m1"
    "d \<notin> set (EMPTY_WORK_DESCRIPTION m1)"
    "set (EMPTY_WORK_DESCRIPTION m1) \<subseteq> set (EMPTY_WORK_DESCRIPTION m)"
    "d \<in> set (EMPTY_WORK_DESCRIPTION m) \<or> d = length (descriptions m)"
    "length (descriptions m) \<le> length (descriptions m1)"
    "\<forall>d'<length (descriptions m). d' \<noteq> d \<longrightarrow> descriptions m1 ! d' = descriptions m ! d'"
    by blast
  from p(6) Cons.prems(1) have c1: "CURRENT_THREAD m1 = Some th" by simp
  from Cons.IH [OF c1 p(7)]
  obtain m2 where n: "nested_handlers hs m1 = Inr m2"
    "workDescriptionOf m2 = workDescriptionOf m1"
    "CURRENT_THREAD m2 = CURRENT_THREAD m1"
    "length (descriptions m1) \<le> length (descriptions m2)"
    "\<forall>d<length (descriptions m1). d \<notin> set (EMPTY_WORK_DESCRIPTION m1) \<longrightarrow>
               descriptions m2 ! d = descriptions m1 ! d"
    by blast
  from n(5) p(2) p(8) have same: "descriptions m2 ! d = descriptions m1 ! d" by blast
  have c2: "CURRENT_THREAD m2 = Some th" using n(3) c1 by simp
  have t2: "workDescriptionOf m2 th = Some d" using n(2) p(5) by simp
  have l2: "d < length (descriptions m2)" using p(2) n(4) by simp
  have d2: "wd_data (descriptions m2 ! d) = HandlerData h" using same p(3) by simp
  let ?m3 = "m2\<lparr>workDescriptionOf := (workDescriptionOf m2)(th := wd_prev (descriptions m2 ! d)),
                  descriptions := (descriptions m2)[d := (descriptions m2 ! d)\<lparr>wd_destroy := False\<rparr>],
                  FREEABLE_WORK_DESCRIPTION := FREEABLE_WORK_DESCRIPTION m2 @ [d]\<rparr>"
  have q: "popHandler h m2 = Inr ?m3"
    by (rule popHandler_top [OF c2 t2 l2 d2])
  have r: "nested_handlers (h # hs) m = Inr ?m3"
    using p(1) n(1) q by simp
  have w: "workDescriptionOf ?m3 = workDescriptionOf m"
    using n(2) p(5) same p(4) by (simp add: fun_eq_iff)
  have c3: "CURRENT_THREAD ?m3 = CURRENT_THREAD m"
    using n(3) p(6) by simp
  have l3: "length (descriptions m) \<le> length (descriptions ?m3)"
    using p(11) n(4) by simp
  have f3: "\<forall>d'<length (descriptions m). d' \<notin> set (EMPTY_WORK_DESCRIPTION m) \<longrightarrow>
               descriptions ?m3 ! d' = descriptions m ! d'"
  proof (intro allI impI)
    fix d' assume a: "d' < length (descriptions m)" and b: "d' \<notin> set (EMPTY_WORK_DESCRIPTION m)"
    from a b p(10) have ne: "d' \<noteq> d" by auto
    from a p(11) have a1: "d' < length (descriptions m1)" by simp
    from b p(9) have b1: "d' \<notin> set (EMPTY_WORK_DESCRIPTION m1)" by blast
    from n(5) a1 b1 have "descriptions m2 ! d' = descriptions m1 ! d'" by blast
    moreover from p(12) a ne have "descriptions m1 ! d' = descriptions m ! d'" by blast
    ultimately show "descriptions ?m3 ! d' = descriptions m ! d'"
      using ne by simp
  qed
  from r w c3 l3 f3 show ?case by blast
qed














text \<open>
  C8: on the current thread, with every pointer in the queue of empty descriptions
  pointing to an allocated description, \<open>pushHandler h\<close> succeeds and leaves on top
  of the thread's stack a description that holds \<open>h\<close> and whose \<open>_prev\<close> is the
  former top; \<open>popHandler h\<close> run next passes both assertions, hands that description
  to the queue of freeable descriptions, and leaves every thread's current work
  description as it was before the push. The same holds for pushes and pops nested
  to any depth (when no description is in the queue of empty descriptions twice).
\<close>

theorem C8_push_pop_round_trip:
  "(CURRENT_THREAD m = Some th \<and>
    list_all (\<lambda>d. d < length (descriptions m)) (EMPTY_WORK_DESCRIPTION m) \<longrightarrow>
     (\<exists>m1 d m2.
        pushHandler h m = Inr m1 \<and>
        Thread_workDescription th m1 = Some d \<and>
        d < length (descriptions m1) \<and>
        wd_data (descriptions m1 ! d) = HandlerData h \<and>
        wd_prev (descriptions m1 ! d) = Thread_workDescription th m \<and>
        popHandler h m1 = Inr m2 \<and>
        workDescriptionOf m2 = workDescriptionOf m \<and>
        Thread_workDescription th m2 = Thread_workDescription th m \<and>
        FREEABLE_WORK_DESCRIPTION m2 = FREEABLE_WORK_DESCRIPTION m @ [d])) \<and>
   (CURRENT_THREAD m = Some th \<and> empty_queue_ok m \<longrightarrow>
     (\<exists>m'. nested_handlers hs m = Inr m' \<and> workDescriptionOf m' = workDescriptionOf m))"
proof (intro conjI impI)
  assume a: "CURRENT_THREAD m = Some th \<and>
   list_all (\<lambda>d. d < length (descriptions m)) (EMPTY_WORK_DESCRIPTION m)"
  then obtain d m1 where p: "pushHandler h m = Inr m1"
    "d < length (descriptions m1)"
    "wd_data (descriptions m1 ! d) = HandlerData h"
    "wd_prev (descriptions m1 ! d) = workDescriptionOf m th"
    "workDescriptionOf m1 = (workDescriptionOf m)(th := Some d)"
    "CURRENT_THREAD m1 = CURRENT_THREAD m"
    "FREEABLE_WORK_DESCRIPTION m1 = FREEABLE_WORK_DESCRIPTION m"
    using pushHandler_ok [of m th h] by blast
  from a p have c: "CURRENT_THREAD m1 = Some th" "workDescriptionOf m1 th = Some d"
    by simp_all
  note q = popHandler_top [OF c p(2) p(3)]
  have w: "((workDescriptionOf m)(th := Some d))(th := workDescriptionOf m th) = workDescriptionOf m"
    by (simp add: fun_eq_iff)
  let ?m2 = "m1\<lparr>workDescriptionOf := (workDescriptionOf m1)(th := wd_prev (descriptions m1 ! d)),
                  descriptions := (descriptions m1)[d := (descriptions m1 ! d)\<lparr>wd_destroy := False\<rparr>],
                  FREEABLE_WORK_DESCRIPTION := FREEABLE_WORK_DESCRIPTION m1 @ [d]\<rparr>"
  show "\<exists>m1 d m2.
        pushHandler h m = Inr m1 \<and>
        Thread_workDescription th m1 = Some d \<and>
        d < length (descriptions m1) \<and>
        wd_data (descriptions m1 ! d) = HandlerData h \<and>
        wd_prev (descriptions m1 ! d) = Thread_workDescription th m \<and>
        popHandler h m1 = Inr m2 \<and>
        workDescriptionOf m2 = workDescriptionOf m \<and>
        Thread_workDescription th m2 = Thread_workDescription th m \<and>
        FREEABLE_WORK_DESCRIPTION m2 = FREEABLE_WORK_DESCRIPTION m @ [d]"
  proof (intro exI conjI)
    show "pushHandler h m = Inr m1" by (rule p(1))
    show "Thread_workDescription th m1 = Some d"
      using c by (simp add: Thread_workDescription_def)
    show "d < length (descriptions m1)" by (rule p(2))
    show "wd_data (descriptions m1 ! d) = HandlerData h" by (rule p(3))
    show "wd_prev (descriptions m1 ! d) = Thread_workDescription th m"
      using p(4) by (simp add: Thread_workDescription_def)
    show "popHandler h m1 = Inr ?m2" by (rule q)
    show e: "workDescriptionOf ?m2 = workDescriptionOf m"
      using p w by simp
    then show "Thread_workDescription th ?m2 = Thread_workDescription th m"
      by (simp add: Thread_workDescription_def)
    show "FREEABLE_WORK_DESCRIPTION ?m2 = FREEABLE_WORK_DESCRIPTION m @ [d]"
      using p by simp
  qed
next
  assume a: "CURRENT_THREAD m = Some th \<and> empty_queue_ok m"
  then show "\<exists>m'. nested_handlers hs m = Inr m' \<and> workDescriptionOf m' = workDescriptionOf m"
    using nested_handlers_lifo [of m th hs] by blast
qed

theorem C8_push_pop_round_trip_witness:
  "CURRENT_THREAD monitor0 = Some 1 \<and>
   list_all (\<lambda>d. d < length (descriptions monitor0)) (EMPTY_WORK_DESCRIPTION monitor0) \<and>
   empty_queue_ok monitor0 \<and>
   (\<exists>m1 d m2.
      pushHandler 7 monitor0 = Inr m1 \<and>
      Thread_workDescription 1 m1 = Some d \<and>
      wd_data (descriptions m1 ! d) = HandlerData 7 \<and>
      popHandler 7 m1 = Inr m2 \<and>
      Thread_workDescription 1 m2 = Some 0 \<and>
      FREEABLE_WORK_DESCRIPTION m2 = [d]) \<and>
   (\<exists>m'. nested_handlers [7, 8] monitor0 = Inr m' \<and> Thread_workDescription 1 m' = Some 0)"
proof -
  have a: "CURRENT_THREAD monitor0 = Some 1 \<and>
      list_all (\<lambda>d. d < length (descriptions monitor0)) (EMPTY_WORK_DESCRIPTION monitor0)"
    by (simp add: monitor0_def)
  have b: "CURRENT_THREAD monitor0 = Some 1 \<and> empty_queue_ok monitor0"
    by (simp add: monitor0_def empty_queue_ok_def)
  have z: "Thread_workDescription 1 monitor0 = Some 0" "FREEABLE_WORK_DESCRIPTION monitor0 = []"
    by (simp_all add: monitor0_def Thread_workDescription_def)
  note T = C8_push_pop_round_trip [of monitor0 1 7 "[7, 8]"]
  from T a z have 1: "\<exists>m1 d m2.
      pushHandler 7 monitor0 = Inr m1 \<and>
      Thread_workDescription 1 m1 = Some d \<and>
      wd_data (descriptions m1 ! d) = HandlerData 7 \<and>
      popHandler 7 m1 = Inr m2 \<and>
      Thread_workDescription 1 m2 = Some 0 \<and>
      FREEABLE_WORK_DESCRIPTION m2 = [d]"
    by (metis append_Nil)
  from T b obtain m' where n: "nested_handlers [7, 8] monitor0 = Inr m'"
    "workDescriptionOf m' = workDescriptionOf monitor0"
    by blast
  from n(2) z(1) have "Thread_workDescription 1 m' = Some 0"
    by (simp add: Thread_workDescription_def)
  with n(1) have 2: "\<exists>m'. nested_handlers [7, 8] monitor0 = Inr m' \<and>
      Thread_workDescription 1 m' = Some 0"
    by blast
  from a b 1 2 show ?thesis by blast
qed



section \<open>Properties of RestDebugHelperHandler\<close>

text \<open>
  C9: for a request whose \<open>sleep\<close> parameter is \<open>0\<close> and which has no \<open>block\<close>
  parameter, with a decimal parser that reads \<open>0\<close> as zero and no failure while the
  result is built and sent, \<open>execute\<close> neither sleeps nor blocks and answers 200 with
  an object of exactly the four attributes \<open>server\<close> (the string \<open>arango\<close>),
  \<open>version\<close> (the string \<open>TRI_VERSION\<close>), \<open>sleep\<close> (the number 0) and \<open>block\<close>
  (false).
\<close>

theorem C9_debug_helper_sleep0:
  "req_value request ''sleep'' = (''0'', True) \<and>
   \<not> snd (req_value request ''block'') \<and>
   doubleDecimal ''0'' = 0 \<and>
   \<not> result_throws \<longrightarrow>
     RestDebugHelperHandler_execute doubleDecimal boolean TRI_VERSION HANDLER_DONE
         has_dispatcherThread result_throws request =
       Some ([],
             Some \<lparr> code = 200,
                    body = VObject [(''server'', VString ''arango''),
                                    (''version'', VString TRI_VERSION),
                                    (''sleep'', VDouble 0),
                                    (''block'', VBool False)] \<rparr>,
             HANDLER_DONE)"
  by (auto simp: RestDebugHelperHandler_execute_def to_unsigned_long_def to_double_def
      generateResult_def Let_def split: prod.splits)

theorem C9_debug_helper_sleep0_witness:
  "req_value sleep0_request ''sleep'' = (''0'', True) \<and>
   \<not> snd (req_value sleep0_request ''block'') \<and>
   decimal0 ''0'' = 0 \<and>
   RestDebugHelperHandler_execute decimal0 boolean_true ''2.8.0'' () True False sleep0_request =
     Some ([],
           Some \<lparr> code = 200,
                  body = VObject [(''server'', VString ''arango''),
                                  (''version'', VString ''2.8.0''),
                                  (''sleep'', VDouble 0),
                                  (''block'', VBool False)] \<rparr>,
           ())"
proof -
  have a: "req_value sleep0_request ''sleep'' = (''0'', True)"
    "\<not> snd (req_value sleep0_request ''block'')"
    "decimal0 ''0'' = 0"
    by (simp_all add: sleep0_request_def decimal0_def)
  from C9_debug_helper_sleep0 [of sleep0_request decimal0 False boolean_true "''2.8.0''" "()" True] a
  show ?thesis by simp
qed


end
